theory Spec2Isabelle
  imports Main "HOL-Library.Word"
begin

section \<open>Data model\<close>

text \<open>
  The verifier works on values produced by \<^verbatim>\<open>JSON.parse\<close>. TypeScript's
  interfaces are erased at run time, so a decoded payload is an untyped JSON value; a
  property that is absent reads as \<^verbatim>\<open>undefined\<close>, which is \<open>None\<close> here.
  Numbers are modelled as integers (the numeric fields read by the verifier, such as
  \<^verbatim>\<open>appAppleId\<close> and \<^verbatim>\<open>signedDate\<close>, are integral), strings as
  Isabelle strings. An object is the list of its own properties, each key once.
\<close>

datatype json =
    JNull
  | JBool bool
  | JNum int
  | JStr string
  | JArr "json list"
  | JObj "(string \<times> json) list"

type_synonym byte = "8 word"

text \<open>\<^verbatim>\<open>export enum VerificationStatus\<close>, in the order of the source.\<close>

datatype VerificationStatus =
    OK
  | VERIFICATION_FAILURE
  | INVALID_APP_IDENTIFIER
  | INVALID_ENVIRONMENT
  | INVALID_CHAIN_LENGTH
  | INVALID_CERTIFICATE
  | FAILURE

text \<open>
  Everything that can be thrown. \<^verbatim>\<open>VerificationException\<close> carries its status and
  its optional cause; the other constructors are the errors of the JavaScript run time
  and the constructor's plain \<^verbatim>\<open>Error\<close> with its message.
  \<open>InvalidCharacterError\<close> stands for what a base64 decoder throws on a string it
  rejects (the base64url decoder throws a TypeError for some defects and this
  DOMException for others; the model does not tell them apart). \<open>SyntaxError\<close> is
  thrown by \<^verbatim>\<open>JSON.parse\<close>, and is also the name of the DOMException with which Web
  Crypto rejects a key request.
\<close>

datatype exn =
    VerificationException VerificationStatus "exn option"
  | TypeError
  | SyntaxError
  | InvalidCharacterError
  | Error string

text \<open>
  The enum \<^verbatim>\<open>Environment\<close> (its file, models/Environment.ts, is not among the
  sources). It is a string enum: decoded payloads carry the environment as a string and
  the verifier compares it with \<^verbatim>\<open>!==\<close> against the configured enum value.
\<close>

datatype Environment = SANDBOX | PRODUCTION | XCODE | LOCAL_TESTING

text \<open>
  Modelled from the spec: the string value of each enumerator. The spec's scenarios
  write the payload values \<^verbatim>\<open>"Sandbox"\<close> and \<^verbatim>\<open>"Production"\<close>; the two
  test environments are given the spelling of their names. Only the fact that the four
  values differ is used.
\<close>

fun env_value :: "Environment \<Rightarrow> string" where
  "env_value SANDBOX = ''Sandbox''"
| "env_value PRODUCTION = ''Production''"
| "env_value XCODE = ''Xcode''"
| "env_value LOCAL_TESTING = ''LocalTesting''"

text \<open>\<^verbatim>\<open>CryptoKey\<close> is opaque; a key is identified by its kind and the number of
  the \<^verbatim>\<open>generateKey\<close> call that made it.\<close>

datatype CryptoKey = PublicKey nat | PrivateKey nat

text \<open>The key usages of Web Crypto.\<close>

datatype KeyUsage =
  Encrypt | Decrypt | Sign | Verify | DeriveKey | DeriveBits | WrapKey | UnwrapKey

record CacheValue =
  publicKey :: CryptoKey
  cacheExpiry :: int

definition MAX_SKEW :: int where
  "MAX_SKEW = 60000"

definition MAXIMUM_CACHE_SIZE :: nat where
  "MAXIMUM_CACHE_SIZE = 32"

definition CACHE_TIME_LIMIT :: int where
  "CACHE_TIME_LIMIT = 15 * 60 * 1000"

text \<open>The fields of \<^verbatim>\<open>class SignedDataVerifier\<close>. The cache is the object
  \<^verbatim>\<open>{ [index: string]: CacheValue }\<close>, kept as an association list.\<close>

record SignedDataVerifier =
  rootCertificates :: "byte list list"
  enableOnlineChecks :: bool
  bundleId :: string
  appAppleId :: "int option"
  environment :: Environment
  verifiedPublicKeyCache :: "(string \<times> CacheValue) list"

text \<open>
  The constructor assigns the fields, starts with an empty cache and then throws when
  the environment is Production and no \<^verbatim>\<open>appAppleId\<close> was passed. A constructor
  that throws yields no object, so the result is the error alone.
\<close>

definition new_SignedDataVerifier ::
  "byte list list \<Rightarrow> bool \<Rightarrow> Environment \<Rightarrow> string \<Rightarrow> int option \<Rightarrow> exn + SignedDataVerifier" where
  "new_SignedDataVerifier appleRootCertificates online env bid aid =
     (let this = \<lparr> rootCertificates = appleRootCertificates,
                   enableOnlineChecks = online,
                   bundleId = bid,
                   appAppleId = aid,
                   environment = env,
                   verifiedPublicKeyCache = [] \<rparr>
      in if env = PRODUCTION \<and> aid = None
         then Inl (Error ''appAppleId is required when the environment is Production'')
         else Inr this)"

section \<open>JavaScript values and operators\<close>

text \<open>Truthiness, as \<^verbatim>\<open>if (x)\<close> and \<^verbatim>\<open>x && y\<close> test it; \<open>None\<close> is
  \<^verbatim>\<open>undefined\<close>.\<close>

fun truthy :: "json option \<Rightarrow> bool" where
  "truthy None = False"
| "truthy (Some JNull) = False"
| "truthy (Some (JBool b)) = b"
| "truthy (Some (JNum n)) = (n \<noteq> 0)"
| "truthy (Some (JStr s)) = (s \<noteq> [])"
| "truthy (Some (JArr xs)) = True"
| "truthy (Some (JObj kvs)) = True"

text \<open>
  Property access \<^verbatim>\<open>obj[k]\<close> and \<^verbatim>\<open>obj.k\<close>. Reading a property of
  \<^verbatim>\<open>null\<close> throws a TypeError; an object yields its own property or
  \<^verbatim>\<open>undefined\<close>; a number, boolean, string or array has none of the keys the
  verifier reads (\<^verbatim>\<open>length\<close> of the chain is read by \<open>chain_length_ne_3\<close> below).
\<close>

fun property :: "json \<Rightarrow> string \<Rightarrow> exn + json option" where
  "property JNull k = Inl TypeError"
| "property (JObj kvs) k = Inr (map_of kvs k)"
| "property (JBool b) k = Inr None"
| "property (JNum n) k = Inr None"
| "property (JStr s) k = Inr None"
| "property (JArr xs) k = Inr None"

text \<open>\<^verbatim>\<open>x ?? d\<close>: the default replaces \<^verbatim>\<open>undefined\<close> and \<^verbatim>\<open>null\<close>.\<close>

fun nullish_coalesce :: "json option \<Rightarrow> json \<Rightarrow> json" where
  "nullish_coalesce None d = d"
| "nullish_coalesce (Some JNull) d = d"
| "nullish_coalesce (Some x) d = x"

text \<open>\<^verbatim>\<open>s !== x\<close> for a string \<open>s\<close>: strict inequality holds unless \<open>x\<close> is a
  string with the same characters.\<close>

definition strict_ne_string :: "string \<Rightarrow> json option \<Rightarrow> bool" where
  "strict_ne_string s x = (x \<noteq> Some (JStr s))"

text \<open>\<^verbatim>\<open>n !== x\<close> for \<open>n\<close> of type \<^verbatim>\<open>number | undefined\<close>.\<close>

definition strict_ne_number :: "int option \<Rightarrow> json option \<Rightarrow> bool" where
  "strict_ne_number n x =
     (case n of None \<Rightarrow> x \<noteq> None | Some i \<Rightarrow> x \<noteq> Some (JNum i))"

text \<open>\<^verbatim>\<open>s.startsWith("SANDBOX")\<close>.\<close>

definition startsWith :: "string \<Rightarrow> string \<Rightarrow> bool" where
  "startsWith s p = (take (length p) s = p)"

text \<open>\<^verbatim>\<open>jwt.split('.')\<close>: the pieces between the dots; a string without a dot
  (also the empty string) is one piece.\<close>

fun split_on :: "char \<Rightarrow> string \<Rightarrow> string list" where
  "split_on d [] = [[]]"
| "split_on d (c # cs) =
     (if c = d then [] # split_on d cs
      else (case split_on d cs of
              [] \<Rightarrow> [[c]]
            | p # ps \<Rightarrow> (c # p) # ps))"

definition is_string :: "json \<Rightarrow> bool" where
  "is_string x = (case x of JStr s \<Rightarrow> True | _ \<Rightarrow> False)"

definition is_number :: "json \<Rightarrow> bool" where
  "is_number x = (case x of JNum n \<Rightarrow> True | _ \<Rightarrow> False)"

text \<open>\<^verbatim>\<open>new Uint8Array(s.split('').map(c => c.charCodeAt(0)))\<close>.\<close>

definition char_codes :: "string \<Rightarrow> byte list" where
  "char_codes s = map of_char s"

section \<open>Collaborators outside the repository\<close>

text \<open>
  The library functions and the validators whose files are not among the sources are
  parameters of the model. A function that can throw returns \<open>None\<close> when it does.
  \<^item> \<open>base64url_decode\<close>: \<^verbatim>\<open>decode\<close> of std/encoding/base64url;
  \<^item> \<open>TextDecoder_decode\<close>: \<^verbatim>\<open>new TextDecoder().decode\<close>, which never throws;
  \<^item> \<open>JSON_parse\<close>: \<^verbatim>\<open>JSON.parse\<close>;
  \<^item> \<open>atob\<close>: \<^verbatim>\<open>atob\<close>, applied to an entry of the chain (which JavaScript first
    converts to a string);
  \<^item> \<open>loose_eq\<close>: \<^verbatim>\<open>==\<close> between a JSON value and a number, used only for the
    \<^verbatim>\<open>length\<close> property of a chain that is an object and not an array;
  \<^item> the validators: \<^verbatim>\<open>validate\<close> of each validator class.
\<close>

record platform =
  base64url_decode :: "string \<Rightarrow> byte list option"
  TextDecoder_decode :: "byte list \<Rightarrow> string"
  JSON_parse :: "string \<Rightarrow> json option"
  atob :: "json \<Rightarrow> string option"
  loose_eq :: "json \<Rightarrow> int \<Rightarrow> bool"
  JWSTransactionDecodedPayloadValidator :: "json \<Rightarrow> bool option"
  JWSRenewalInfoDecodedPayloadValidator :: "json \<Rightarrow> bool option"
  AppTransactionValidator :: "json \<Rightarrow> bool option"
  NotificationTypeV2Validator :: "json \<Rightarrow> bool option"
  SubtypeValidator :: "json \<Rightarrow> bool option"
  SummaryValidator :: "json \<Rightarrow> bool option"
  ExternalPurchaseTokenValidator :: "json \<Rightarrow> bool option"
  EnvironmentValidator :: "json \<Rightarrow> bool option"
  StatusValidator :: "json \<Rightarrow> bool option"
  ConsumptionRequestReasonValidator :: "json \<Rightarrow> bool option"

section \<open>Structural validators of the notification payload\<close>

text \<open>
  One test of a validator,
  \<^verbatim>\<open>if ((typeof obj[k] !== 'undefined') && !(check(obj[k]))) return false\<close>:
  \<open>Some True\<close> when the test lets the object pass, \<open>Some False\<close> when it returns
  false, \<open>None\<close> when it throws.
\<close>

definition field_ok :: "json \<Rightarrow> string \<Rightarrow> (json \<Rightarrow> bool option) \<Rightarrow> bool option" where
  "field_ok obj k check =
     (case property obj k of
        Inl e \<Rightarrow> None
      | Inr None \<Rightarrow> Some True
      | Inr (Some x) \<Rightarrow> check x)"

text \<open>The tests run in order; the first that fails or throws decides.\<close>

fun all_ok :: "bool option list \<Rightarrow> bool option" where
  "all_ok [] = Some True"
| "all_ok (None # cs) = None"
| "all_ok (Some False # cs) = Some False"
| "all_ok (Some True # cs) = all_ok cs"

definition DataValidator :: "platform \<Rightarrow> json \<Rightarrow> bool option" where
  "DataValidator P obj = all_ok
     [ field_ok obj ''environment'' (EnvironmentValidator P),
       field_ok obj ''appAppleId'' (\<lambda>x. Some (is_number x)),
       field_ok obj ''bundleId'' (\<lambda>x. Some (is_string x)),
       field_ok obj ''bundleVersion'' (\<lambda>x. Some (is_string x)),
       field_ok obj ''signedTransactionInfo'' (\<lambda>x. Some (is_string x)),
       field_ok obj ''signedRenewalInfo'' (\<lambda>x. Some (is_string x)),
       field_ok obj ''status'' (StatusValidator P),
       field_ok obj ''consumptionRequestReason'' (ConsumptionRequestReasonValidator P) ]"

definition ResponseBodyV2DecodedPayloadValidator :: "platform \<Rightarrow> json \<Rightarrow> bool option" where
  "ResponseBodyV2DecodedPayloadValidator P obj = all_ok
     [ field_ok obj ''notificationType'' (NotificationTypeV2Validator P),
       field_ok obj ''subtype'' (SubtypeValidator P),
       field_ok obj ''notificationUUID'' (\<lambda>x. Some (is_string x)),
       field_ok obj ''data'' (DataValidator P),
       field_ok obj ''version'' (\<lambda>x. Some (is_string x)),
       field_ok obj ''signedDate'' (\<lambda>x. Some (is_number x)),
       field_ok obj ''summary'' (SummaryValidator P),
       field_ok obj ''externalPurchaseToken'' (ExternalPurchaseTokenValidator P) ]"

section \<open>The verifier\<close>

text \<open>
  What a call can observe and change outside the verifier object: the clock read by
  \<^verbatim>\<open>new Date()\<close>, and the number of times \<^verbatim>\<open>crypto.subtle.generateKey\<close> has
  been called.
\<close>

record runtime =
  now :: int
  generateKeyCalls :: nat

text \<open>A \<^verbatim>\<open>Date\<close>: \<^verbatim>\<open>new Date()\<close> at a clock reading, or \<^verbatim>\<open>new Date(x)\<close>.\<close>

datatype Date = Date_now int | Date_of json

definition extractSignedDate :: "runtime \<Rightarrow> json \<Rightarrow> exn + Date" where
  "extractSignedDate rt decodedJWT =
     (case property decodedJWT ''signedDate'' of
        Inl e \<Rightarrow> Inl e
      | Inr None \<Rightarrow> Inr (Date_now (now rt))
      | Inr (Some x) \<Rightarrow> Inr (Date_of x))"

text \<open>The extractor that \<^verbatim>\<open>verifyAndDecodeAppTransaction\<close> passes.\<close>

definition extractReceiptCreationDate :: "runtime \<Rightarrow> json \<Rightarrow> exn + Date" where
  "extractReceiptCreationDate rt t =
     (case property t ''receiptCreationDate'' of
        Inl e \<Rightarrow> Inl e
      | Inr None \<Rightarrow> Inr (Date_now (now rt))
      | Inr (Some x) \<Rightarrow> Inr (Date_of x))"

text \<open>
  \<^verbatim>\<open>crypto.subtle.generateKey({name: "ECDSA", namedCurve: "P-256"}, extractable, usages)\<close>,
  as Web Crypto specifies it: a usage other than sign and verify is a SyntaxError; the
  private key of the pair gets the requested usages that a private ECDSA key can have,
  which is sign alone, and the public key gets verify; a pair whose private key is
  left without any usage is rejected with a SyntaxError. Every call is counted.
\<close>

definition generateKey_ECDSA_P256 ::
  "runtime \<Rightarrow> bool \<Rightarrow> KeyUsage list \<Rightarrow> runtime \<times> (exn + CryptoKey \<times> CryptoKey)" where
  "generateKey_ECDSA_P256 rt extractable usages =
     (let n = generateKeyCalls rt;
          rt' = rt\<lparr>generateKeyCalls := Suc n\<rparr>;
          privateUsages = filter (\<lambda>u. u = Sign) usages
      in if filter (\<lambda>u. u \<noteq> Sign \<and> u \<noteq> Verify) usages \<noteq> []
         then (rt', Inl SyntaxError)
         else if privateUsages = []
         then (rt', Inl SyntaxError)
         else (rt', Inr (PublicKey n, PrivateKey n)))"

text \<open>
  \<^verbatim>\<open>verifyCertificateChain\<close> reads none of its arguments and neither reads nor
  writes \<^verbatim>\<open>verifiedPublicKeyCache\<close>: it asks for a fresh extractable P-256 key pair
  with the single usage verify and returns the public key of the pair
  (\<^verbatim>\<open>.then(keyPair => keyPair.publicKey)\<close>). With that usage the request is
  rejected, so the function throws on every call.
\<close>

definition verifyCertificateChain ::
  "SignedDataVerifier \<Rightarrow> runtime \<Rightarrow> byte list list \<Rightarrow> byte list \<Rightarrow> byte list \<Rightarrow> Date
     \<Rightarrow> runtime \<times> (exn + CryptoKey)" where
  "verifyCertificateChain this rt trustedRoots leaf intermediate effectiveDate =
     (case generateKey_ECDSA_P256 rt True [Verify] of
        (rt', Inl e) \<Rightarrow> (rt', Inl e)
      | (rt', Inr keyPair) \<Rightarrow> (rt', Inr (fst keyPair)))"

text \<open>\<^verbatim>\<open>chain.length != 3\<close>. An array or a string has a numeric length; an object has
  the property only if it is its own; a number or a boolean has none, and
  \<^verbatim>\<open>undefined != 3\<close> is true.\<close>

definition chain_length_ne_3 :: "platform \<Rightarrow> json \<Rightarrow> bool" where
  "chain_length_ne_3 P chain =
     (case chain of
        JArr cs \<Rightarrow> length cs \<noteq> 3
      | JStr s \<Rightarrow> length s \<noteq> 3
      | JObj kvs \<Rightarrow> (case map_of kvs ''length'' of
                      None \<Rightarrow> True
                    | Some l \<Rightarrow> \<not> loose_eq P l 3)
      | _ \<Rightarrow> True)"

text \<open>The callback of \<^verbatim>\<open>map\<close> over the sliced chain, entry by entry; \<^verbatim>\<open>atob\<close>
  throws on an entry that is not base64.\<close>

fun decode_certificates :: "platform \<Rightarrow> json list \<Rightarrow> exn + byte list list" where
  "decode_certificates P [] = Inr []"
| "decode_certificates P (cert # certs) =
     (case atob P cert of
        None \<Rightarrow> Inl InvalidCharacterError
      | Some s \<Rightarrow>
          (case decode_certificates P certs of
             Inl e \<Rightarrow> Inl e
           | Inr bs \<Rightarrow> Inr (char_codes s # bs)))"

text \<open>\<^verbatim>\<open>chain.slice(0, 2).map(...)\<close>. Only an array has both methods with this
  meaning: a string has no \<^verbatim>\<open>map\<close> and an object parsed from JSON has no
  \<^verbatim>\<open>slice\<close>, so calling it throws a TypeError.\<close>

definition slice_and_decode :: "platform \<Rightarrow> json \<Rightarrow> exn + byte list list" where
  "slice_and_decode P chain =
     (case chain of
        JArr cs \<Rightarrow> decode_certificates P (take 2 cs)
      | _ \<Rightarrow> Inl TypeError)"

text \<open>
  The body of the inner \<^verbatim>\<open>try\<close> of \<^verbatim>\<open>verifyJWT\<close>. The third part of the
  token, the signature, is not read, and the key awaited from
  \<^verbatim>\<open>verifyCertificateChain\<close> is not used: the body would return the decoded payload
  as soon as the key had been obtained. The indices are in range: the caller has checked
  that there are three parts, and the sliced chain has two entries once it has passed
  the length test as an array.
\<close>

definition verify_chain ::
  "platform \<Rightarrow> SignedDataVerifier \<Rightarrow> runtime \<Rightarrow> string list \<Rightarrow> json
     \<Rightarrow> (runtime \<Rightarrow> json \<Rightarrow> exn + Date) \<Rightarrow> runtime \<times> (exn + json)" where
  "verify_chain P this rt parts decodedJWT signedDateExtractor =
     (case base64url_decode P (parts ! 0) of
        None \<Rightarrow> (rt, Inl InvalidCharacterError)
      | Some headerBytes \<Rightarrow>
     (case JSON_parse P (TextDecoder_decode P headerBytes) of
        None \<Rightarrow> (rt, Inl SyntaxError)
      | Some headerObj \<Rightarrow>
     (case property headerObj ''x5c'' of
        Inl e \<Rightarrow> (rt, Inl e)
      | Inr x5c \<Rightarrow>
     (let chain = nullish_coalesce x5c (JArr []) in
      if chain_length_ne_3 P chain
      then (rt, Inl (VerificationException INVALID_CHAIN_LENGTH None))
      else
     (case slice_and_decode P chain of
        Inl e \<Rightarrow> (rt, Inl e)
      | Inr certificateChain \<Rightarrow>
     (case signedDateExtractor rt decodedJWT of
        Inl e \<Rightarrow> (rt, Inl e)
      | Inr effectiveDate \<Rightarrow>
     (case verifyCertificateChain this rt (rootCertificates this)
             (certificateChain ! 0) (certificateChain ! 1) effectiveDate of
        (rt', Inl e) \<Rightarrow> (rt', Inl e)
      | (rt', Inr key) \<Rightarrow> (rt', Inr decodedJWT))))))))"

text \<open>The inner \<^verbatim>\<open>catch\<close> wraps whatever was thrown, a VerificationException
  included.\<close>

definition inner_catch :: "exn \<Rightarrow> exn" where
  "inner_catch e = VerificationException VERIFICATION_FAILURE (Some e)"

text \<open>The outer \<^verbatim>\<open>catch\<close> rethrows a VerificationException and wraps anything
  else.\<close>

definition outer_catch :: "exn \<Rightarrow> exn" where
  "outer_catch e =
     (case e of
        VerificationException status cause \<Rightarrow> e
      | _ \<Rightarrow> VerificationException FAILURE (Some e))"

definition rethrow :: "(exn \<Rightarrow> exn) \<Rightarrow> runtime \<times> (exn + 'a) \<Rightarrow> runtime \<times> (exn + 'a)" where
  "rethrow handler r =
     (case r of
        (rt, Inl e) \<Rightarrow> (rt, Inl (handler e))
      | (rt, Inr x) \<Rightarrow> (rt, Inr x))"

text \<open>The body of the outer \<^verbatim>\<open>try\<close>. A validator that throws is a
  validator that dereferences a payload that is \<^verbatim>\<open>null\<close>: a TypeError.\<close>

definition verify_body ::
  "platform \<Rightarrow> SignedDataVerifier \<Rightarrow> runtime \<Rightarrow> string \<Rightarrow> (json \<Rightarrow> bool option)
     \<Rightarrow> (runtime \<Rightarrow> json \<Rightarrow> exn + Date) \<Rightarrow> runtime \<times> (exn + json)" where
  "verify_body P this rt jwt validator signedDateExtractor =
     (let parts = split_on CHR ''.'' jwt in
      if length parts \<noteq> 3
      then (rt, Inl (VerificationException FAILURE None))
      else
     (case base64url_decode P (parts ! 1) of
        None \<Rightarrow> (rt, Inl InvalidCharacterError)
      | Some payloadBytes \<Rightarrow>
     (case JSON_parse P (TextDecoder_decode P payloadBytes) of
        None \<Rightarrow> (rt, Inl SyntaxError)
      | Some decodedJWT \<Rightarrow>
     (case validator decodedJWT of
        None \<Rightarrow> (rt, Inl TypeError)
      | Some False \<Rightarrow> (rt, Inl (VerificationException FAILURE None))
      | Some True \<Rightarrow>
          if environment this = XCODE \<or> environment this = LOCAL_TESTING
          then (rt, Inr decodedJWT)
          else rethrow inner_catch
                 (verify_chain P this rt parts decodedJWT signedDateExtractor)))))"

definition verifyJWT ::
  "platform \<Rightarrow> SignedDataVerifier \<Rightarrow> runtime \<Rightarrow> string \<Rightarrow> (json \<Rightarrow> bool option)
     \<Rightarrow> (runtime \<Rightarrow> json \<Rightarrow> exn + Date) \<Rightarrow> runtime \<times> (exn + json)" where
  "verifyJWT P this rt jwt validator signedDateExtractor =
     rethrow outer_catch (verify_body P this rt jwt validator signedDateExtractor)"

section \<open>The typed entry points\<close>

text \<open>Running the checks that follow \<^verbatim>\<open>await this.verifyJWT(...)\<close>: an exception
  of \<^verbatim>\<open>verifyJWT\<close> propagates, a payload goes through the checks.\<close>

definition and_then ::
  "runtime \<times> (exn + json) \<Rightarrow> (json \<Rightarrow> exn + json) \<Rightarrow> runtime \<times> (exn + json)" where
  "and_then r checks =
     (case r of
        (rt, Inl e) \<Rightarrow> (rt, Inl e)
      | (rt, Inr decodedJWT) \<Rightarrow> (rt, checks decodedJWT))"

definition transaction_checks :: "SignedDataVerifier \<Rightarrow> json \<Rightarrow> exn + json" where
  "transaction_checks this decodedJWT =
     (case property decodedJWT ''bundleId'' of
        Inl e \<Rightarrow> Inl e
      | Inr b \<Rightarrow>
          if strict_ne_string (bundleId this) b
          then Inl (VerificationException INVALID_APP_IDENTIFIER None)
          else (case property decodedJWT ''environment'' of
                  Inl e \<Rightarrow> Inl e
                | Inr env \<Rightarrow>
                    if strict_ne_string (env_value (environment this)) env
                    then Inl (VerificationException INVALID_ENVIRONMENT None)
                    else Inr decodedJWT))"

definition verifyAndDecodeTransaction ::
  "platform \<Rightarrow> SignedDataVerifier \<Rightarrow> runtime \<Rightarrow> string \<Rightarrow> runtime \<times> (exn + json)" where
  "verifyAndDecodeTransaction P this rt signedTransactionInfo =
     and_then
       (verifyJWT P this rt signedTransactionInfo
          (JWSTransactionDecodedPayloadValidator P) extractSignedDate)
       (transaction_checks this)"

definition renewal_info_checks :: "SignedDataVerifier \<Rightarrow> json \<Rightarrow> exn + json" where
  "renewal_info_checks this decodedRenewalInfo =
     (case property decodedRenewalInfo ''environment'' of
        Inl e \<Rightarrow> Inl e
      | Inr env \<Rightarrow>
          if strict_ne_string (env_value (environment this)) env
          then Inl (VerificationException INVALID_ENVIRONMENT None)
          else Inr decodedRenewalInfo)"

definition verifyAndDecodeRenewalInfo ::
  "platform \<Rightarrow> SignedDataVerifier \<Rightarrow> runtime \<Rightarrow> string \<Rightarrow> runtime \<times> (exn + json)" where
  "verifyAndDecodeRenewalInfo P this rt signedRenewalInfo =
     and_then
       (verifyJWT P this rt signedRenewalInfo
          (JWSRenewalInfoDecodedPayloadValidator P) extractSignedDate)
       (renewal_info_checks this)"

text \<open>\<^verbatim>\<open>verifyNotification(bundleId, appAppleId, environment)\<close>.\<close>

definition verifyNotification ::
  "SignedDataVerifier \<Rightarrow> json option \<Rightarrow> json option \<Rightarrow> json option \<Rightarrow> exn + unit" where
  "verifyNotification this bid aid env =
     (if strict_ne_string (bundleId this) bid
         \<or> (environment this = PRODUCTION \<and> strict_ne_number (appAppleId this) aid)
      then Inl (VerificationException INVALID_APP_IDENTIFIER None)
      else if strict_ne_string (env_value (environment this)) env
      then Inl (VerificationException INVALID_ENVIRONMENT None)
      else Inr ())"

text \<open>\<^verbatim>\<open>if (v) ... else ...\<close> on a property value that the first branch then
  dereferences.\<close>

definition if_truthy :: "json option \<Rightarrow> (json \<Rightarrow> 'a) \<Rightarrow> 'a \<Rightarrow> 'a" where
  "if_truthy v f g =
     (case v of
        None \<Rightarrow> g
      | Some x \<Rightarrow> if truthy (Some x) then f x else g)"

text \<open>The three assignments of the \<^verbatim>\<open>data\<close> and of the \<^verbatim>\<open>summary\<close> branch;
  the result is (bundleId, appAppleId, environment).\<close>

definition identity_fields ::
  "json \<Rightarrow> exn + (json option \<times> json option \<times> json option)" where
  "identity_fields x =
     (case property x ''appAppleId'' of
        Inl e \<Rightarrow> Inl e
      | Inr aid \<Rightarrow>
     (case property x ''bundleId'' of
        Inl e \<Rightarrow> Inl e
      | Inr bid \<Rightarrow>
     (case property x ''environment'' of
        Inl e \<Rightarrow> Inl e
      | Inr env \<Rightarrow> Inr (bid, aid, env))))"

text \<open>
  The \<^verbatim>\<open>externalPurchaseToken\<close> branch: the environment is derived from
  \<^verbatim>\<open>externalPurchaseId && externalPurchaseId.startsWith("SANDBOX")\<close>. A truthy
  value that is not a string has no \<^verbatim>\<open>startsWith\<close>, and calling it throws.
\<close>

definition token_identity_fields ::
  "json \<Rightarrow> exn + (json option \<times> json option \<times> json option)" where
  "token_identity_fields tok =
     (case property tok ''appAppleId'' of
        Inl e \<Rightarrow> Inl e
      | Inr aid \<Rightarrow>
     (case property tok ''bundleId'' of
        Inl e \<Rightarrow> Inl e
      | Inr bid \<Rightarrow>
     (case property tok ''externalPurchaseId'' of
        Inl e \<Rightarrow> Inl e
      | Inr pid \<Rightarrow>
          if_truthy pid
            (\<lambda>p. case p of
                    JStr s \<Rightarrow>
                      if startsWith s ''SANDBOX''
                      then Inr (bid, aid, Some (JStr (env_value SANDBOX)))
                      else Inr (bid, aid, Some (JStr (env_value PRODUCTION)))
                  | _ \<Rightarrow> Inl TypeError)
            (Inr (bid, aid, Some (JStr (env_value PRODUCTION)))))))"

text \<open>The \<^verbatim>\<open>if / else if / else if\<close> chain of \<^verbatim>\<open>verifyAndDecodeNotification\<close>;
  with no branch taken the three variables stay \<^verbatim>\<open>undefined\<close>.\<close>

definition notification_identity ::
  "json \<Rightarrow> exn + (json option \<times> json option \<times> json option)" where
  "notification_identity decodedJWT =
     (case property decodedJWT ''data'' of
        Inl e \<Rightarrow> Inl e
      | Inr dataV \<Rightarrow>
          if_truthy dataV identity_fields
     (case property decodedJWT ''summary'' of
        Inl e \<Rightarrow> Inl e
      | Inr summaryV \<Rightarrow>
          if_truthy summaryV identity_fields
     (case property decodedJWT ''externalPurchaseToken'' of
        Inl e \<Rightarrow> Inl e
      | Inr tokenV \<Rightarrow>
          if_truthy tokenV token_identity_fields
            (Inr (None, None, None)))))"

definition notification_checks :: "SignedDataVerifier \<Rightarrow> json \<Rightarrow> exn + json" where
  "notification_checks this decodedJWT =
     (case notification_identity decodedJWT of
        Inl e \<Rightarrow> Inl e
      | Inr (bid, aid, env) \<Rightarrow>
          (case verifyNotification this bid aid env of
             Inl e \<Rightarrow> Inl e
           | Inr u \<Rightarrow> Inr decodedJWT))"

definition verifyAndDecodeNotification ::
  "platform \<Rightarrow> SignedDataVerifier \<Rightarrow> runtime \<Rightarrow> string \<Rightarrow> runtime \<times> (exn + json)" where
  "verifyAndDecodeNotification P this rt signedPayload =
     and_then
       (verifyJWT P this rt signedPayload
          (ResponseBodyV2DecodedPayloadValidator P) extractSignedDate)
       (notification_checks this)"

definition app_transaction_checks :: "SignedDataVerifier \<Rightarrow> json \<Rightarrow> exn + json" where
  "app_transaction_checks this decodedAppTransaction =
     (case property decodedAppTransaction ''receiptType'' of
        Inl e \<Rightarrow> Inl e
      | Inr env \<Rightarrow>
     (case property decodedAppTransaction ''bundleId'' of
        Inl e \<Rightarrow> Inl e
      | Inr bid \<Rightarrow>
          if strict_ne_string (bundleId this) bid
          then Inl (VerificationException INVALID_APP_IDENTIFIER None)
          else if environment this = PRODUCTION
          then (case property decodedAppTransaction ''appAppleId'' of
                  Inl e \<Rightarrow> Inl e
                | Inr aid \<Rightarrow>
                    if strict_ne_number (appAppleId this) aid
                    then Inl (VerificationException INVALID_APP_IDENTIFIER None)
                    else if strict_ne_string (env_value (environment this)) env
                    then Inl (VerificationException INVALID_ENVIRONMENT None)
                    else Inr decodedAppTransaction)
          else if strict_ne_string (env_value (environment this)) env
          then Inl (VerificationException INVALID_ENVIRONMENT None)
          else Inr decodedAppTransaction))"

definition verifyAndDecodeAppTransaction ::
  "platform \<Rightarrow> SignedDataVerifier \<Rightarrow> runtime \<Rightarrow> string \<Rightarrow> runtime \<times> (exn + json)" where
  "verifyAndDecodeAppTransaction P this rt signedAppTransaction =
     and_then
       (verifyJWT P this rt signedAppTransaction
          (AppTransactionValidator P) extractReceiptCreationDate)
       (app_transaction_checks this)"

section \<open>A test predicate and example collaborators\<close>

text \<open>A sub-object of a notification is populated when the \<^verbatim>\<open>if\<close> chain of
  \<^verbatim>\<open>verifyAndDecodeNotification\<close> takes its branch.\<close>

definition populated :: "json \<Rightarrow> string \<Rightarrow> bool" where
  "populated d k = (case property d k of Inl e \<Rightarrow> False | Inr v \<Rightarrow> truthy v)"

text \<open>The value that \<^verbatim>\<open>d.k\<close> reads from a payload that is not \<^verbatim>\<open>null\<close>.\<close>

definition field_of :: "json \<Rightarrow> string \<Rightarrow> json option" where
  "field_of d k = (case property d k of Inl e \<Rightarrow> None | Inr v \<Rightarrow> v)"

text \<open>The outcome of a call depends on the runtime only through the date extractor, and
  both extractors of the verifier fail, if at all, independently of the clock.\<close>

definition clock_independent :: "(runtime \<Rightarrow> json \<Rightarrow> exn + Date) \<Rightarrow> bool" where
  "clock_independent ext =
     (\<forall>rt rt' d. (case ext rt d of Inl e \<Rightarrow> ext rt' d = Inl e | Inr x \<Rightarrow> isl (ext rt' d) = False))"

text \<open>
  Concrete collaborators for the worked examples. The two tables give the value of the
  base64url decoder (followed by the text decoder) and of \<^verbatim>\<open>JSON.parse\<close> on the
  strings the examples use; a string outside a table is treated as rejected. The last
  base64url entry decodes to a text that is not JSON. Loose equality is given for numbers
  only; the examples compare nothing else with it.
\<close>

definition example_base64url :: "(string \<times> string) list" where
  \<open>example_base64url =
    [
      (''eyJhbGciOiJFUzI1NiIsIng1YyI6WyJRUT09IiwiUWc9PSIsIlF3PT0iXX0'',
       ''{"alg":"ES256","x5c":["QQ==","Qg==","Qw=="]}''),
      (''eyJhbGciOiJFUzI1NiIsIng1YyI6WyJRUT09IiwiUWc9PSJdfQ'',
       ''{"alg":"ES256","x5c":["QQ==","Qg=="]}''),
      (''eyJidW5kbGVJZCI6ImNvbS5leGFtcGxlIiwiZW52aXJvbm1lbnQiOiJTYW5kYm94In0'',
       ''{"bundleId":"com.example","environment":"Sandbox"}''),
      (''eyJidW5kbGVJZCI6ImNvbS5vdGhlciIsImVudmlyb25tZW50IjoiU2FuZGJveCJ9'',
       ''{"bundleId":"com.other","environment":"Sandbox"}''),
      (''eyJidW5kbGVJZCI6ImNvbS5leGFtcGxlIiwiZW52aXJvbm1lbnQiOiJYY29kZSJ9'',
       ''{"bundleId":"com.example","environment":"Xcode"}''),
      (''eyJidW5kbGVJZCI6ImNvbS5vdGhlciIsImVudmlyb25tZW50IjoiWGNvZGUifQ'',
       ''{"bundleId":"com.other","environment":"Xcode"}''),
      (''eyJkYXRhIjp7ImFwcEFwcGxlSWQiOjcsImJ1bmRsZUlkIjoiY29tLmV4YW1wbGUiLCJlbnZpcm9ubWVudCI6Ilhjb2RlIn19'',
       ''{"data":{"appAppleId":7,"bundleId":"com.example","environment":"Xcode"}}''),
      (''eyJkYXRhIjp7ImJ1bmRsZUlkIjoiY29tLm90aGVyIiwiZW52aXJvbm1lbnQiOiJYY29kZSJ9fQ'',
       ''{"data":{"bundleId":"com.other","environment":"Xcode"}}''),
      (''eyJzdW1tYXJ5Ijp7ImJ1bmRsZUlkIjoiY29tLmV4YW1wbGUiLCJlbnZpcm9ubWVudCI6IlNhbmRib3gifX0'',
       ''{"summary":{"bundleId":"com.example","environment":"Sandbox"}}''),
      (''eyJidW5kbGVJZCI6ImNvbS5leGFtcGxlIiwicmVjZWlwdFR5cGUiOiJYY29kZSJ9'',
       ''{"bundleId":"com.example","receiptType":"Xcode"}''),
      (''eyJidW5kbGVJZCI6ImNvbS5leGFtcGxlIiwicmVjZWlwdFR5cGUiOiJTYW5kYm94In0'',
       ''{"bundleId":"com.example","receiptType":"Sandbox"}''),
      (''eyJleHRlcm5hbFB1cmNoYXNlVG9rZW4iOnsiZXh0ZXJuYWxQdXJjaGFzZUlkIjoiU0FOREJPWF8xIiwiYnVuZGxlSWQiOiJjb20uZXhhbXBsZSIsImFwcEFwcGxlSWQiOjd9fQ'',
       ''{"externalPurchaseToken":{"externalPurchaseId":"SANDBOX_1","bundleId":"com.example","appAppleId":7}}''),
      (''e30'',
       ''{}''),
      (''eyJub3RpZmljYXRpb25VVUlEIjo1fQ'',
       ''{"notificationUUID":5}''),
      (''bm90IGpzb24'',
       ''not json'')
    ]\<close>

definition example_json :: "(string \<times> json) list" where
  \<open>example_json =
    [
      (''{"alg":"ES256","x5c":["QQ==","Qg==","Qw=="]}'',
       JObj [(''alg'', JStr ''ES256''), (''x5c'', JArr [JStr ''QQ=='', JStr ''Qg=='', JStr ''Qw==''])]),
      (''{"alg":"ES256","x5c":["QQ==","Qg=="]}'',
       JObj [(''alg'', JStr ''ES256''), (''x5c'', JArr [JStr ''QQ=='', JStr ''Qg==''])]),
      (''{"bundleId":"com.example","environment":"Sandbox"}'',
       JObj [(''bundleId'', JStr ''com.example''), (''environment'', JStr ''Sandbox'')]),
      (''{"bundleId":"com.other","environment":"Sandbox"}'',
       JObj [(''bundleId'', JStr ''com.other''), (''environment'', JStr ''Sandbox'')]),
      (''{"bundleId":"com.example","environment":"Xcode"}'',
       JObj [(''bundleId'', JStr ''com.example''), (''environment'', JStr ''Xcode'')]),
      (''{"bundleId":"com.other","environment":"Xcode"}'',
       JObj [(''bundleId'', JStr ''com.other''), (''environment'', JStr ''Xcode'')]),
      (''{"data":{"appAppleId":7,"bundleId":"com.example","environment":"Xcode"}}'',
       JObj [(''data'', JObj [(''appAppleId'', JNum 7), (''bundleId'', JStr ''com.example''), (''environment'', JStr ''Xcode'')])]),
      (''{"data":{"bundleId":"com.other","environment":"Xcode"}}'',
       JObj [(''data'', JObj [(''bundleId'', JStr ''com.other''), (''environment'', JStr ''Xcode'')])]),
      (''{"summary":{"bundleId":"com.example","environment":"Sandbox"}}'',
       JObj [(''summary'', JObj [(''bundleId'', JStr ''com.example''), (''environment'', JStr ''Sandbox'')])]),
      (''{"bundleId":"com.example","receiptType":"Xcode"}'',
       JObj [(''bundleId'', JStr ''com.example''), (''receiptType'', JStr ''Xcode'')]),
      (''{"bundleId":"com.example","receiptType":"Sandbox"}'',
       JObj [(''bundleId'', JStr ''com.example''), (''receiptType'', JStr ''Sandbox'')]),
      (''{"externalPurchaseToken":{"externalPurchaseId":"SANDBOX_1","bundleId":"com.example","appAppleId":7}}'',
       JObj [(''externalPurchaseToken'', JObj [(''externalPurchaseId'', JStr ''SANDBOX_1''), (''bundleId'', JStr ''com.example''), (''appAppleId'', JNum 7)])]),
      (''{}'',
       JObj []),
      (''{"notificationUUID":5}'',
       JObj [(''notificationUUID'', JNum 5)])
    ]\<close>

definition example_text :: "byte list \<Rightarrow> string" where
  "example_text bs = map (\<lambda>w. char_of (unat w)) bs"

text \<open>\<^verbatim>\<open>StringValidator\<close> and \<^verbatim>\<open>NumberValidator\<close>, and a validator written like
  \<^verbatim>\<open>DataValidator\<close> for the fields the verifier reads; they stand for the validators
  whose files are not among the sources.\<close>

definition string_validator :: "json \<Rightarrow> bool option" where
  "string_validator x = Some (is_string x)"

definition number_validator :: "json \<Rightarrow> bool option" where
  "number_validator x = Some (is_number x)"

definition identity_validator :: "json \<Rightarrow> bool option" where
  "identity_validator obj = all_ok
     [ field_ok obj ''bundleId'' string_validator,
       field_ok obj ''appAppleId'' number_validator,
       field_ok obj ''environment'' string_validator,
       field_ok obj ''receiptType'' string_validator,
       field_ok obj ''externalPurchaseId'' string_validator,
       field_ok obj ''signedDate'' number_validator,
       field_ok obj ''receiptCreationDate'' number_validator ]"

definition example_platform :: platform where
  "example_platform =
     \<lparr> base64url_decode =
         map_of (map (\<lambda>(segment, text). (segment, char_codes text)) example_base64url),
       TextDecoder_decode = example_text,
       JSON_parse = map_of example_json,
       atob = (\<lambda>cert. case cert of
                 JStr s \<Rightarrow> map_of [(''QQ=='', ''A''), (''Qg=='', ''B''), (''Qw=='', ''C'')] s
               | _ \<Rightarrow> None),
       loose_eq = (\<lambda>x n. x = JNum n),
       JWSTransactionDecodedPayloadValidator = identity_validator,
       JWSRenewalInfoDecodedPayloadValidator = identity_validator,
       AppTransactionValidator = identity_validator,
       NotificationTypeV2Validator = string_validator,
       SubtypeValidator = string_validator,
       SummaryValidator = identity_validator,
       ExternalPurchaseTokenValidator = identity_validator,
       EnvironmentValidator = string_validator,
       StatusValidator = number_validator,
       ConsumptionRequestReasonValidator = string_validator \<rparr>"

text \<open>A verifier for the bundle com.example with no appAppleId, no root certificates
  and online checks off, as the constructor builds it.\<close>

definition example_verifier :: "Environment \<Rightarrow> SignedDataVerifier" where
  "example_verifier env =
     \<lparr> rootCertificates = [], enableOnlineChecks = False, bundleId = ''com.example'',
       appAppleId = None, environment = env, verifiedPublicKeyCache = [] \<rparr>"

text \<open>A verifier for PRODUCTION, which needs an appAppleId.\<close>

definition example_production_verifier :: SignedDataVerifier where
  "example_production_verifier =
     \<lparr> rootCertificates = [], enableOnlineChecks = False, bundleId = ''com.example'',
       appAppleId = Some 1, environment = PRODUCTION, verifiedPublicKeyCache = [] \<rparr>"

definition at_time :: "int \<Rightarrow> runtime" where
  "at_time t = \<lparr> now = t, generateKeyCalls = 0 \<rparr>"

section \<open>Auxiliary facts\<close>

lemma rethrow_simps:
  "rethrow h (rt, Inl e) = (rt, Inl (h e))"
  "rethrow h (rt, Inr x) = (rt, Inr x)"
  by (simp_all add: rethrow_def)

lemma and_then_simps:
  "and_then (rt, Inl e) c = (rt, Inl e)"
  "and_then (rt, Inr x) c = (rt, c x)"
  by (simp_all add: and_then_def)

lemma outer_catch_is_VerificationException:
  "\<exists>status cause. outer_catch e = VerificationException status cause"
  by (cases e) (simp_all add: outer_catch_def)

lemma outer_catch_inner_catch:
  "outer_catch (inner_catch e) = inner_catch e"
  by (simp add: outer_catch_def inner_catch_def)

lemma verifyJWT_result:
  "(\<exists>rt' d. verifyJWT P this rt jwt validator ext = (rt', Inr d))
   \<or> (\<exists>rt' status cause.
         verifyJWT P this rt jwt validator ext = (rt', Inl (VerificationException status cause)))"
proof (cases "verify_body P this rt jwt validator ext")
  case (Pair rt' r)
  show ?thesis
  proof (cases r)
    case (Inl e)
    with Pair outer_catch_is_VerificationException [of e] show ?thesis
      by (auto simp: verifyJWT_def rethrow_simps)
  next
    case (Inr d)
    with Pair show ?thesis by (simp add: verifyJWT_def rethrow_simps)
  qed
qed

lemma verifyJWT_wrong_part_count:
  "length (split_on CHR ''.'' jwt) \<noteq> 3 \<Longrightarrow>
   verifyJWT P this rt jwt validator ext = (rt, Inl (VerificationException FAILURE None))"
  by (simp add: verifyJWT_def verify_body_def rethrow_simps outer_catch_def)

lemma verifyJWT_bad_base64url:
  "length (split_on CHR ''.'' jwt) = 3 \<Longrightarrow>
   base64url_decode P (split_on CHR ''.'' jwt ! 1) = None \<Longrightarrow>
   verifyJWT P this rt jwt validator ext =
     (rt, Inl (VerificationException FAILURE (Some InvalidCharacterError)))"
  by (simp add: verifyJWT_def verify_body_def rethrow_simps outer_catch_def)

lemma verifyJWT_not_json:
  "length (split_on CHR ''.'' jwt) = 3 \<Longrightarrow>
   base64url_decode P (split_on CHR ''.'' jwt ! 1) = Some bs \<Longrightarrow>
   JSON_parse P (TextDecoder_decode P bs) = None \<Longrightarrow>
   verifyJWT P this rt jwt validator ext =
     (rt, Inl (VerificationException FAILURE (Some SyntaxError)))"
  by (simp add: verifyJWT_def verify_body_def rethrow_simps outer_catch_def)

lemma verifyJWT_validator_rejects:
  "length (split_on CHR ''.'' jwt) = 3 \<Longrightarrow>
   base64url_decode P (split_on CHR ''.'' jwt ! 1) = Some bs \<Longrightarrow>
   JSON_parse P (TextDecoder_decode P bs) = Some d \<Longrightarrow>
   validator d = Some False \<Longrightarrow>
   verifyJWT P this rt jwt validator ext =
     (rt, Inl (VerificationException FAILURE None))"
  by (simp add: verifyJWT_def verify_body_def rethrow_simps outer_catch_def)

lemma verifyJWT_validator_throws:
  "length (split_on CHR ''.'' jwt) = 3 \<Longrightarrow>
   base64url_decode P (split_on CHR ''.'' jwt ! 1) = Some bs \<Longrightarrow>
   JSON_parse P (TextDecoder_decode P bs) = Some d \<Longrightarrow>
   validator d = None \<Longrightarrow>
   verifyJWT P this rt jwt validator ext =
     (rt, Inl (VerificationException FAILURE (Some TypeError)))"
  by (simp add: verifyJWT_def verify_body_def rethrow_simps outer_catch_def)

lemma verifyJWT_signed:
  "length (split_on CHR ''.'' jwt) = 3 \<Longrightarrow>
   base64url_decode P (split_on CHR ''.'' jwt ! 1) = Some bs \<Longrightarrow>
   JSON_parse P (TextDecoder_decode P bs) = Some d \<Longrightarrow>
   validator d = Some True \<Longrightarrow>
   environment this \<noteq> XCODE \<Longrightarrow> environment this \<noteq> LOCAL_TESTING \<Longrightarrow>
   verifyJWT P this rt jwt validator ext =
     rethrow inner_catch (verify_chain P this rt (split_on CHR ''.'' jwt) d ext)"
  apply (simp add: verifyJWT_def verify_body_def)
  apply (cases "verify_chain P this rt (split_on CHR ''.'' jwt) d ext")
  subgoal for rt' r
    by (cases r) (simp_all add: rethrow_simps outer_catch_inner_catch)
  done

lemma verifyJWT_bypass:
  "length (split_on CHR ''.'' jwt) = 3 \<Longrightarrow>
   base64url_decode P (split_on CHR ''.'' jwt ! 1) = Some bs \<Longrightarrow>
   JSON_parse P (TextDecoder_decode P bs) = Some d \<Longrightarrow>
   validator d = Some True \<Longrightarrow>
   environment this = XCODE \<or> environment this = LOCAL_TESTING \<Longrightarrow>
   verifyJWT P this rt jwt validator ext = (rt, Inr d)"
  by (auto simp add: verifyJWT_def verify_body_def rethrow_simps)

lemma verifyCertificateChain_rejects:
  "verifyCertificateChain this rt trustedRoots leaf intermediate effectiveDate =
     (rt\<lparr>generateKeyCalls := Suc (generateKeyCalls rt)\<rparr>, Inl SyntaxError)"
  by (simp add: verifyCertificateChain_def generateKey_ECDSA_P256_def)

lemma verify_chain_reaches_generateKey:
  "base64url_decode P (parts ! 0) = Some hb \<Longrightarrow>
   JSON_parse P (TextDecoder_decode P hb) = Some headerObj \<Longrightarrow>
   property headerObj ''x5c'' = Inr (Some (JArr [c0, c1, c2])) \<Longrightarrow>
   atob P c0 = Some leaf \<Longrightarrow> atob P c1 = Some intermediate \<Longrightarrow>
   ext rt d = Inr date \<Longrightarrow>
   verify_chain P this rt parts d ext =
     (rt\<lparr>generateKeyCalls := Suc (generateKeyCalls rt)\<rparr>, Inl SyntaxError)"
  by (simp add: verify_chain_def chain_length_ne_3_def slice_and_decode_def
        verifyCertificateChain_rejects)

lemma verify_chain_wrong_length:
  "base64url_decode P (parts ! 0) = Some hb \<Longrightarrow>
   JSON_parse P (TextDecoder_decode P hb) = Some headerObj \<Longrightarrow>
   property headerObj ''x5c'' = Inr (Some (JArr cs)) \<Longrightarrow>
   length cs \<noteq> 3 \<Longrightarrow>
   verify_chain P this rt parts d ext = (rt, Inl (VerificationException INVALID_CHAIN_LENGTH None))"
  by (simp add: verify_chain_def chain_length_ne_3_def)

lemma verify_chain_no_x5c:
  "base64url_decode P (parts ! 0) = Some hb \<Longrightarrow>
   JSON_parse P (TextDecoder_decode P hb) = Some headerObj \<Longrightarrow>
   property headerObj ''x5c'' = Inr None \<Longrightarrow>
   verify_chain P this rt parts d ext = (rt, Inl (VerificationException INVALID_CHAIN_LENGTH None))"
  by (simp add: verify_chain_def chain_length_ne_3_def)

lemma unat_of_char: "unat (of_char c :: byte) = of_char c"
proof -
  have "(of_char c :: byte) = of_nat (of_char c)"
    by (simp add: of_nat_of_char)
  then show ?thesis
    by (simp add: unat_of_nat)
qed

lemma example_text_char_codes: "example_text (char_codes s) = s"
  by (induction s) (simp_all add: example_text_def char_codes_def unat_of_char)

lemmas example_defs =
  example_platform_def example_base64url_def example_json_def example_verifier_def at_time_def
  identity_validator_def string_validator_def number_validator_def field_ok_def
  is_string_def is_number_def example_text_char_codes

lemma verify_chain_throws:
  "\<exists>rt' e. verify_chain P this rt parts d ext = (rt', Inl e)"
  by (simp add: verify_chain_def verifyCertificateChain_rejects Let_def
           split: option.splits sum.splits)

lemma verify_body_returns:
  assumes "verify_body P this rt jwt validator ext = (rt', Inr d)"
  shows "validator d = Some True
         \<and> (environment this = XCODE \<or> environment this = LOCAL_TESTING) \<and> rt' = rt"
proof -
  let ?parts = "split_on CHR ''.'' jwt"
  from assms have len: "length ?parts = 3"
    by (simp add: verify_body_def Let_def split: if_splits)
  from assms len obtain bs where bs: "base64url_decode P (?parts ! 1) = Some bs"
    by (cases "base64url_decode P (?parts ! 1)") (simp_all add: verify_body_def)
  from assms len bs obtain d0 where d0: "JSON_parse P (TextDecoder_decode P bs) = Some d0"
    by (cases "JSON_parse P (TextDecoder_decode P bs)") (simp_all add: verify_body_def)
  from assms len bs d0 have ok: "validator d0 = Some True"
    by (simp add: verify_body_def split: option.splits bool.splits)
  show ?thesis
  proof (cases "environment this = XCODE \<or> environment this = LOCAL_TESTING")
    case True
    with assms len bs d0 ok show ?thesis
      by (auto simp add: verify_body_def)
  next
    case False
    with assms len bs d0 ok
    have r: "rethrow inner_catch (verify_chain P this rt ?parts d0 ext) = (rt', Inr d)"
      by (simp add: verify_body_def)
    from verify_chain_throws [of P this rt ?parts d0 ext]
    obtain rt1 e where "verify_chain P this rt ?parts d0 ext = (rt1, Inl e)"
      by blast
    with r show ?thesis
      by (simp add: rethrow_simps)
  qed
qed

lemma verifyJWT_returns:
  assumes "verifyJWT P this rt jwt validator ext = (rt', Inr d)"
  shows "validator d = Some True
         \<and> (environment this = XCODE \<or> environment this = LOCAL_TESTING) \<and> rt' = rt"
proof -
  obtain rt1 r1 where b: "verify_body P this rt jwt validator ext = (rt1, r1)"
    by (cases "verify_body P this rt jwt validator ext")
  with assms have "r1 = Inr d" and "rt1 = rt'"
    by (cases r1; simp add: verifyJWT_def rethrow_simps)+
  with b show ?thesis
    by (simp add: verify_body_returns)
qed

lemma extractSignedDate_clock_independent: "clock_independent extractSignedDate"
  by (simp add: clock_independent_def extractSignedDate_def split: sum.splits option.splits)

lemma extractReceiptCreationDate_clock_independent:
  "clock_independent extractReceiptCreationDate"
  by (simp add: clock_independent_def extractReceiptCreationDate_def
           split: sum.splits option.splits)

lemma snd_rethrow: "snd (rethrow h r) = map_sum h id (snd r)"
  by (cases r; cases "snd r") (auto simp: rethrow_def)

lemma snd_and_then:
  "snd (and_then r c) = (case snd r of Inl e \<Rightarrow> Inl e | Inr d \<Rightarrow> c d)"
  by (cases r; cases "snd r") (auto simp: and_then_def)

lemma verify_chain_outcome:
  assumes "clock_independent ext"
  shows "snd (verify_chain P this rt parts d ext) = snd (verify_chain P this rt' parts d ext)"
proof -
  from assms have
    "case ext rt d of Inl e \<Rightarrow> ext rt' d = Inl e | Inr x \<Rightarrow> isl (ext rt' d) = False"
    unfolding clock_independent_def by blast
  then show ?thesis
    by (cases "ext rt d"; cases "ext rt' d")
       (simp_all add: verify_chain_def verifyCertificateChain_rejects Let_def
             split: option.splits sum.splits)
qed

lemma verifyJWT_outcome:
  assumes "clock_independent ext"
  shows "snd (verifyJWT P this rt jwt validator ext) = snd (verifyJWT P this rt' jwt validator ext)"
  using verify_chain_outcome [OF assms, of P this rt _ _ rt']
  by (simp add: verifyJWT_def verify_body_def Let_def snd_rethrow
           split: option.splits bool.splits)

lemma property_defined: "d \<noteq> JNull \<Longrightarrow> \<exists>v. property d k = Inr v"
  by (cases d) simp_all

lemma ResponseBodyV2DecodedPayloadValidator_null:
  "ResponseBodyV2DecodedPayloadValidator P JNull = None"
  by (simp add: ResponseBodyV2DecodedPayloadValidator_def field_ok_def)

lemma not_populated:
  assumes "d \<noteq> JNull" and "\<not> populated d k"
  obtains v where "property d k = Inr v" and "\<not> truthy v"
  using assms property_defined [of d k] by (auto simp: populated_def)

lemma if_truthy_not: "\<not> truthy v \<Longrightarrow> if_truthy v f g = g"
  by (cases v) (simp_all add: if_truthy_def)

lemma if_truthy_object: "if_truthy (Some (JObj kvs)) f g = f (JObj kvs)"
  by (simp add: if_truthy_def)

lemma strict_ne_number_iff: "strict_ne_number n x \<longleftrightarrow> x \<noteq> map_option JNum n"
  by (cases n) (simp_all add: strict_ne_number_def)

lemma field_of_property: "d \<noteq> JNull \<Longrightarrow> property d k = Inr (field_of d k)"
  by (cases d) (simp_all add: field_of_def)

lemma evaluate_verifyJWT_bypass:
  "split_on CHR ''.'' jwt = [header, payload, signature] \<Longrightarrow>
   base64url_decode P payload = Some pb \<Longrightarrow>
   JSON_parse P (TextDecoder_decode P pb) = Some d \<Longrightarrow>
   validator d = Some True \<Longrightarrow>
   environment this = XCODE \<or> environment this = LOCAL_TESTING \<Longrightarrow>
   verifyJWT P this rt jwt validator ext = (rt, Inr d)"
  by (rule verifyJWT_bypass [where bs = pb]) simp_all

section \<open>Construction\<close>

text \<open>
  C7. Constructing a verifier with environment PRODUCTION and no appAppleId throws at
  construction time (no verifier object results, so no verify call can follow), and
  constructing with any other combination of environment and appAppleId succeeds and
  yields a verifier holding exactly the arguments and an empty cache.
\<close>

theorem constructor_requires_appAppleId_in_production:
  "(env = PRODUCTION \<and> aid = None \<longrightarrow>
      new_SignedDataVerifier roots online env bid aid =
        Inl (Error ''appAppleId is required when the environment is Production''))
   \<and> (\<not> (env = PRODUCTION \<and> aid = None) \<longrightarrow>
      new_SignedDataVerifier roots online env bid aid =
        Inr \<lparr> rootCertificates = roots, enableOnlineChecks = online, bundleId = bid,
              appAppleId = aid, environment = env, verifiedPublicKeyCache = [] \<rparr>)"
  by (simp add: new_SignedDataVerifier_def)

theorem constructor_requires_appAppleId_in_production_witness:
  "new_SignedDataVerifier [] True PRODUCTION ''com.example'' None =
     Inl (Error ''appAppleId is required when the environment is Production'')
   \<and> new_SignedDataVerifier [] True SANDBOX ''com.example'' None =
     Inr \<lparr> rootCertificates = [], enableOnlineChecks = True, bundleId = ''com.example'',
           appAppleId = None, environment = SANDBOX, verifiedPublicKeyCache = [] \<rparr>
   \<and> new_SignedDataVerifier [] True PRODUCTION ''com.example'' (Some 1234) =
     Inr \<lparr> rootCertificates = [], enableOnlineChecks = True, bundleId = ''com.example'',
           appAppleId = Some 1234, environment = PRODUCTION, verifiedPublicKeyCache = [] \<rparr>"
  using constructor_requires_appAppleId_in_production
          [of PRODUCTION None "[]" True "''com.example''"]
        constructor_requires_appAppleId_in_production
          [of SANDBOX None "[]" True "''com.example''"]
        constructor_requires_appAppleId_in_production
          [of PRODUCTION "Some 1234" "[]" True "''com.example''"]
  by simp

section \<open>Malformed input\<close>

text \<open>
  C4. A malformed token makes verifyJWT fail with a VerificationException whose status
  is FAILURE: a token that does not split on the dot into exactly three parts, one
  whose middle part the base64url decoder rejects, one whose decoded middle part
  \<^verbatim>\<open>JSON.parse\<close> rejects, and one whose decoded payload the structural validator
  rejects (by returning false or by throwing). And whatever the token, an exception
  that leaves verifyJWT is a VerificationException. This holds for every verifier, every
  validator and every date extractor.
\<close>

theorem verifyJWT_malformed_input_is_FAILURE:
  "(length (split_on CHR ''.'' jwt) \<noteq> 3 \<longrightarrow>
      verifyJWT P this rt jwt validator ext =
        (rt, Inl (VerificationException FAILURE None)))
   \<and> (length (split_on CHR ''.'' jwt) = 3
        \<and> base64url_decode P (split_on CHR ''.'' jwt ! 1) = None \<longrightarrow>
      verifyJWT P this rt jwt validator ext =
        (rt, Inl (VerificationException FAILURE (Some InvalidCharacterError))))
   \<and> (length (split_on CHR ''.'' jwt) = 3
        \<and> base64url_decode P (split_on CHR ''.'' jwt ! 1) = Some bs
        \<and> JSON_parse P (TextDecoder_decode P bs) = None \<longrightarrow>
      verifyJWT P this rt jwt validator ext =
        (rt, Inl (VerificationException FAILURE (Some SyntaxError))))
   \<and> (length (split_on CHR ''.'' jwt) = 3
        \<and> base64url_decode P (split_on CHR ''.'' jwt ! 1) = Some bs
        \<and> JSON_parse P (TextDecoder_decode P bs) = Some d
        \<and> validator d = Some False \<longrightarrow>
      verifyJWT P this rt jwt validator ext =
        (rt, Inl (VerificationException FAILURE None)))
   \<and> (length (split_on CHR ''.'' jwt) = 3
        \<and> base64url_decode P (split_on CHR ''.'' jwt ! 1) = Some bs
        \<and> JSON_parse P (TextDecoder_decode P bs) = Some d
        \<and> validator d = None \<longrightarrow>
      verifyJWT P this rt jwt validator ext =
        (rt, Inl (VerificationException FAILURE (Some TypeError))))
   \<and> (\<forall>e. snd (verifyJWT P this rt jwt validator ext) = Inl e \<longrightarrow>
          (\<exists>status cause. e = VerificationException status cause))"
proof (intro conjI impI allI)
  fix e assume "snd (verifyJWT P this rt jwt validator ext) = Inl e"
  with verifyJWT_result [of P this rt jwt validator ext]
  show "\<exists>status cause. e = VerificationException status cause"
    by auto
qed (simp_all add: verifyJWT_wrong_part_count verifyJWT_bad_base64url verifyJWT_not_json
       verifyJWT_validator_rejects verifyJWT_validator_throws)

theorem verifyJWT_malformed_input_is_FAILURE_witness:
  \<open>verifyJWT example_platform (example_verifier SANDBOX) (at_time 0)
      ''eyJhbGciOiJFUzI1NiIsIng1YyI6WyJRUT09IiwiUWc9PSIsIlF3PT0iXX0.eyJidW5kbGVJZCI6ImNvbS5leGFtcGxlIiwiZW52aXJvbm1lbnQiOiJTYW5kYm94In0''
      identity_validator extractSignedDate =
     (at_time 0, Inl (VerificationException FAILURE None))
   \<and> verifyJWT example_platform (example_verifier SANDBOX) (at_time 0)
      ''eyJhbGciOiJFUzI1NiIsIng1YyI6WyJRUT09IiwiUWc9PSIsIlF3PT0iXX0.!!!.c2ln''
      identity_validator extractSignedDate =
     (at_time 0, Inl (VerificationException FAILURE (Some InvalidCharacterError)))
   \<and> verifyJWT example_platform (example_verifier SANDBOX) (at_time 0)
      ''eyJhbGciOiJFUzI1NiIsIng1YyI6WyJRUT09IiwiUWc9PSIsIlF3PT0iXX0.bm90IGpzb24.c2ln''
      identity_validator extractSignedDate =
     (at_time 0, Inl (VerificationException FAILURE (Some SyntaxError)))
   \<and> verifyJWT example_platform (example_verifier SANDBOX) (at_time 0)
      ''eyJhbGciOiJFUzI1NiIsIng1YyI6WyJRUT09IiwiUWc9PSIsIlF3PT0iXX0.eyJub3RpZmljYXRpb25VVUlEIjo1fQ.c2ln''
      (ResponseBodyV2DecodedPayloadValidator example_platform) extractSignedDate =
     (at_time 0, Inl (VerificationException FAILURE None))\<close>
proof -
  let ?h = "''eyJhbGciOiJFUzI1NiIsIng1YyI6WyJRUT09IiwiUWc9PSIsIlF3PT0iXX0''"
  have two_parts: "length (split_on CHR ''.''
      ''eyJhbGciOiJFUzI1NiIsIng1YyI6WyJRUT09IiwiUWc9PSIsIlF3PT0iXX0.eyJidW5kbGVJZCI6ImNvbS5leGFtcGxlIiwiZW52aXJvbm1lbnQiOiJTYW5kYm94In0'') \<noteq> 3"
    by simp
  have bad_base64: "length (split_on CHR ''.'' ''eyJhbGciOiJFUzI1NiIsIng1YyI6WyJRUT09IiwiUWc9PSIsIlF3PT0iXX0.!!!.c2ln'') = 3
      \<and> base64url_decode example_platform
           (split_on CHR ''.'' ''eyJhbGciOiJFUzI1NiIsIng1YyI6WyJRUT09IiwiUWc9PSIsIlF3PT0iXX0.!!!.c2ln'' ! 1) = None"
    by (simp add: example_defs)
  have not_json: \<open>length (split_on CHR ''.'' ''eyJhbGciOiJFUzI1NiIsIng1YyI6WyJRUT09IiwiUWc9PSIsIlF3PT0iXX0.bm90IGpzb24.c2ln'') = 3
      \<and> base64url_decode example_platform
           (split_on CHR ''.'' ''eyJhbGciOiJFUzI1NiIsIng1YyI6WyJRUT09IiwiUWc9PSIsIlF3PT0iXX0.bm90IGpzb24.c2ln'' ! 1) = Some (char_codes ''not json'')
      \<and> JSON_parse example_platform
           (TextDecoder_decode example_platform (char_codes ''not json'')) = None\<close>
    by (simp add: example_defs)
  have rejected: \<open>length (split_on CHR ''.'' ''eyJhbGciOiJFUzI1NiIsIng1YyI6WyJRUT09IiwiUWc9PSIsIlF3PT0iXX0.eyJub3RpZmljYXRpb25VVUlEIjo1fQ.c2ln'') = 3
      \<and> base64url_decode example_platform
           (split_on CHR ''.'' ''eyJhbGciOiJFUzI1NiIsIng1YyI6WyJRUT09IiwiUWc9PSIsIlF3PT0iXX0.eyJub3RpZmljYXRpb25VVUlEIjo1fQ.c2ln'' ! 1) =
          Some (char_codes ''{"notificationUUID":5}'')
      \<and> JSON_parse example_platform
           (TextDecoder_decode example_platform (char_codes ''{"notificationUUID":5}'')) =
          Some (JObj [(''notificationUUID'', JNum 5)])
      \<and> ResponseBodyV2DecodedPayloadValidator example_platform (JObj [(''notificationUUID'', JNum 5)]) =
          Some False\<close>
    by (simp add: ResponseBodyV2DecodedPayloadValidator_def example_defs)
  note inst = verifyJWT_malformed_input_is_FAILURE
    [where P = example_platform and this = "example_verifier SANDBOX" and rt = "at_time 0"
       and ext = extractSignedDate]
  show ?thesis
    using inst [where jwt = "''eyJhbGciOiJFUzI1NiIsIng1YyI6WyJRUT09IiwiUWc9PSIsIlF3PT0iXX0.eyJidW5kbGVJZCI6ImNvbS5leGFtcGxlIiwiZW52aXJvbm1lbnQiOiJTYW5kYm94In0''"
                 and validator = identity_validator,
               THEN conjunct1, rule_format, OF two_parts]
      inst [where jwt = "''eyJhbGciOiJFUzI1NiIsIng1YyI6WyJRUT09IiwiUWc9PSIsIlF3PT0iXX0.!!!.c2ln''" and validator = identity_validator,
           THEN conjunct2, THEN conjunct1, rule_format, OF bad_base64]
      inst [where jwt = "''eyJhbGciOiJFUzI1NiIsIng1YyI6WyJRUT09IiwiUWc9PSIsIlF3PT0iXX0.bm90IGpzb24.c2ln''" and validator = identity_validator,
           THEN conjunct2, THEN conjunct2, THEN conjunct1, rule_format, OF not_json]
      inst [where jwt = "''eyJhbGciOiJFUzI1NiIsIng1YyI6WyJRUT09IiwiUWc9PSIsIlF3PT0iXX0.eyJub3RpZmljYXRpb25VVUlEIjo1fQ.c2ln''"
             and validator = "ResponseBodyV2DecodedPayloadValidator example_platform",
           THEN conjunct2, THEN conjunct2, THEN conjunct2, THEN conjunct1, rule_format,
           OF rejected]
    by simp
qed

section \<open>Signature and certificate chain\<close>



text \<open>
  C2. The claim is that a header whose x5c array has a length other than three makes
  the verify operation fail with status INVALID_CHAIN_LENGTH. The code throws that
  exception inside the inner try block, whose catch clause wraps every exception into
  VERIFICATION_FAILURE. What is proved is what the code does: in a PRODUCTION or
  SANDBOX verifier, with a payload that decodes and passes the validator, such a header
  makes verifyJWT fail with status VERIFICATION_FAILURE; INVALID_CHAIN_LENGTH survives
  only as the status of the cause.
\<close>

theorem verifyJWT_wrong_chain_length_is_VERIFICATION_FAILURE:
  assumes parts: "split_on CHR ''.'' jwt = [header, payload, signature]"
    and payload: "base64url_decode P payload = Some pb"
      "JSON_parse P (TextDecoder_decode P pb) = Some d"
      "validator d = Some True"
    and env: "environment this = PRODUCTION \<or> environment this = SANDBOX"
    and header: "base64url_decode P header = Some hb"
      "JSON_parse P (TextDecoder_decode P hb) = Some headerObj"
      "property headerObj ''x5c'' = Inr (Some (JArr chain))"
    and chain: "length chain \<noteq> 3"
  shows "verifyJWT P this rt jwt validator ext =
           (rt, Inl (VerificationException VERIFICATION_FAILURE
                       (Some (VerificationException INVALID_CHAIN_LENGTH None))))"
proof -
  from env have signed: "environment this \<noteq> XCODE" "environment this \<noteq> LOCAL_TESTING"
    by auto
  have len: "length (split_on CHR ''.'' jwt) = 3"
    and p1: "base64url_decode P (split_on CHR ''.'' jwt ! 1) = Some pb"
    and p0: "base64url_decode P (split_on CHR ''.'' jwt ! 0) = Some hb"
    using parts payload(1) header(1) by simp_all
  have "verifyJWT P this rt jwt validator ext =
          rethrow inner_catch (verify_chain P this rt (split_on CHR ''.'' jwt) d ext)"
    by (rule verifyJWT_signed [where validator = validator, OF len p1 payload(2) payload(3) signed])
  also have "verify_chain P this rt (split_on CHR ''.'' jwt) d ext =
          (rt, Inl (VerificationException INVALID_CHAIN_LENGTH None))"
    by (rule verify_chain_wrong_length [OF p0 header(2) header(3) chain])
  finally show ?thesis by (simp add: rethrow_simps inner_catch_def)
qed

theorem verifyJWT_wrong_chain_length_is_VERIFICATION_FAILURE_witness:
  \<open>verifyJWT example_platform (example_verifier SANDBOX) (at_time 0)
     ''eyJhbGciOiJFUzI1NiIsIng1YyI6WyJRUT09IiwiUWc9PSJdfQ.eyJidW5kbGVJZCI6ImNvbS5leGFtcGxlIiwiZW52aXJvbm1lbnQiOiJTYW5kYm94In0.c2ln''
     identity_validator extractSignedDate =
   (\<lparr>now = 0, generateKeyCalls = 0\<rparr>,
    Inl (VerificationException VERIFICATION_FAILURE
           (Some (VerificationException INVALID_CHAIN_LENGTH None))))\<close>
proof -
  let ?d = "JObj [(''bundleId'', JStr ''com.example''), (''environment'', JStr ''Sandbox'')]"
  have parts: "split_on CHR ''.''
      ''eyJhbGciOiJFUzI1NiIsIng1YyI6WyJRUT09IiwiUWc9PSJdfQ.eyJidW5kbGVJZCI6ImNvbS5leGFtcGxlIiwiZW52aXJvbm1lbnQiOiJTYW5kYm94In0.c2ln'' =
      [''eyJhbGciOiJFUzI1NiIsIng1YyI6WyJRUT09IiwiUWc9PSJdfQ'',
       ''eyJidW5kbGVJZCI6ImNvbS5leGFtcGxlIiwiZW52aXJvbm1lbnQiOiJTYW5kYm94In0'', ''c2ln'']"
    by simp
  have payload: \<open>base64url_decode example_platform
      ''eyJidW5kbGVJZCI6ImNvbS5leGFtcGxlIiwiZW52aXJvbm1lbnQiOiJTYW5kYm94In0'' =
      Some (char_codes ''{"bundleId":"com.example","environment":"Sandbox"}'')\<close>
    \<open>JSON_parse example_platform (TextDecoder_decode example_platform
      (char_codes ''{"bundleId":"com.example","environment":"Sandbox"}'')) = Some ?d\<close>
    "identity_validator ?d = Some True"
    by (simp_all add: example_defs)
  have env: "environment (example_verifier SANDBOX) = PRODUCTION
      \<or> environment (example_verifier SANDBOX) = SANDBOX"
    by (simp add: example_defs)
  have header: \<open>base64url_decode example_platform
      ''eyJhbGciOiJFUzI1NiIsIng1YyI6WyJRUT09IiwiUWc9PSJdfQ'' =
      Some (char_codes ''{"alg":"ES256","x5c":["QQ==","Qg=="]}'')\<close>
    \<open>JSON_parse example_platform (TextDecoder_decode example_platform
      (char_codes ''{"alg":"ES256","x5c":["QQ==","Qg=="]}'')) =
      Some (JObj [(''alg'', JStr ''ES256''), (''x5c'', JArr [JStr ''QQ=='', JStr ''Qg==''])])\<close>
    "property (JObj [(''alg'', JStr ''ES256''), (''x5c'', JArr [JStr ''QQ=='', JStr ''Qg==''])]) ''x5c'' =
      Inr (Some (JArr [JStr ''QQ=='', JStr ''Qg=='']))"
    by (simp_all add: example_defs)
  have chain: "length [JStr ''QQ=='', JStr ''Qg==''] \<noteq> 3"
    by simp
  show ?thesis
    using verifyJWT_wrong_chain_length_is_VERIFICATION_FAILURE
            [where validator = identity_validator and ext = extractSignedDate
               and rt = "at_time 0",
             OF parts payload env header chain]
    by (simp add: example_defs)
qed

text \<open>
  C6. The claim is that two verify calls with the same certificate chain within the
  15 minutes of the cache invoke the chain-validation primitive at most once. The code
  declares the cache, its size and its time limit, but verifyCertificateChain neither
  reads nor writes it. What is proved is what the code does: in a verifier for
  PRODUCTION or SANDBOX, a token that gets as far as the chain makes verifyJWT call
  generateKey once and fail with VERIFICATION_FAILURE, and a second call on the same
  token and the same verifier, at whatever clock reading \<open>t\<close>, calls generateKey
  once more and fails in the same way: two invocations for two calls.
\<close>

theorem every_call_invokes_the_chain_primitive:
  assumes env: "environment this = PRODUCTION \<or> environment this = SANDBOX"
    and parts: "split_on CHR ''.'' jwt = [header, payload, signature]"
    and payload: "base64url_decode P payload = Some pb"
      "JSON_parse P (TextDecoder_decode P pb) = Some d"
      "validator d = Some True"
    and header: "base64url_decode P header = Some hb"
      "JSON_parse P (TextDecoder_decode P hb) = Some headerObj"
      "property headerObj ''x5c'' = Inr (Some (JArr [c0, c1, c2]))"
    and certs: "atob P c0 = Some a0" "atob P c1 = Some a1"
    and date: "\<And>rt'. \<exists>date. ext rt' d = Inr date"
  shows
    "verifyJWT P this rt jwt validator ext =
       (rt\<lparr>generateKeyCalls := generateKeyCalls rt + 1\<rparr>,
        Inl (VerificationException VERIFICATION_FAILURE (Some SyntaxError)))
     \<and> verifyJWT P this (rt\<lparr>generateKeyCalls := generateKeyCalls rt + 1, now := t\<rparr>)
         jwt validator ext =
       (rt\<lparr>generateKeyCalls := generateKeyCalls rt + 2, now := t\<rparr>,
        Inl (VerificationException VERIFICATION_FAILURE (Some SyntaxError)))"
proof -
  from env have signed: "environment this \<noteq> XCODE" "environment this \<noteq> LOCAL_TESTING"
    by auto
  have len: "length (split_on CHR ''.'' jwt) = 3"
    and p1: "base64url_decode P (split_on CHR ''.'' jwt ! 1) = Some pb"
    and p0: "base64url_decode P (split_on CHR ''.'' jwt ! 0) = Some hb"
    using parts payload(1) header(1) by simp_all
  have call: "verifyJWT P this rt' jwt validator ext =
      (rt'\<lparr>generateKeyCalls := Suc (generateKeyCalls rt')\<rparr>,
       Inl (VerificationException VERIFICATION_FAILURE (Some SyntaxError)))" for rt'
  proof -
    from date [of rt'] obtain date' where date': "ext rt' d = Inr date'"
      by blast
    have "verifyJWT P this rt' jwt validator ext =
          rethrow inner_catch (verify_chain P this rt' (split_on CHR ''.'' jwt) d ext)"
      by (rule verifyJWT_signed [where validator = validator,
            OF len p1 payload(2) payload(3) signed])
    also have "verify_chain P this rt' (split_on CHR ''.'' jwt) d ext =
          (rt'\<lparr>generateKeyCalls := Suc (generateKeyCalls rt')\<rparr>, Inl SyntaxError)"
      by (rule verify_chain_reaches_generateKey
            [where ext = ext and rt = rt', OF p0 header(2) header(3) certs date'])
    finally show ?thesis
      by (simp add: rethrow_simps inner_catch_def)
  qed
  show ?thesis
    using call [of rt] call [of "rt\<lparr>generateKeyCalls := generateKeyCalls rt + 1, now := t\<rparr>"]
    by simp
qed

theorem every_call_invokes_the_chain_primitive_witness:
  \<open>verifyJWT example_platform (example_verifier SANDBOX) \<lparr>now = 0, generateKeyCalls = 0\<rparr>
     ''eyJhbGciOiJFUzI1NiIsIng1YyI6WyJRUT09IiwiUWc9PSIsIlF3PT0iXX0.eyJidW5kbGVJZCI6ImNvbS5leGFtcGxlIiwiZW52aXJvbm1lbnQiOiJTYW5kYm94In0.c2ln''
     identity_validator extractSignedDate =
   (\<lparr>now = 0, generateKeyCalls = 1\<rparr>,
    Inl (VerificationException VERIFICATION_FAILURE (Some SyntaxError)))
   \<and> verifyJWT example_platform (example_verifier SANDBOX) \<lparr>now = 1000, generateKeyCalls = 1\<rparr>
     ''eyJhbGciOiJFUzI1NiIsIng1YyI6WyJRUT09IiwiUWc9PSIsIlF3PT0iXX0.eyJidW5kbGVJZCI6ImNvbS5leGFtcGxlIiwiZW52aXJvbm1lbnQiOiJTYW5kYm94In0.c2ln''
     identity_validator extractSignedDate =
   (\<lparr>now = 1000, generateKeyCalls = 2\<rparr>,
    Inl (VerificationException VERIFICATION_FAILURE (Some SyntaxError)))
   \<and> 1000 - 0 < CACHE_TIME_LIMIT\<close>
proof -
  let ?d = "JObj [(''bundleId'', JStr ''com.example''), (''environment'', JStr ''Sandbox'')]"
  have env: "environment (example_verifier SANDBOX) = PRODUCTION
      \<or> environment (example_verifier SANDBOX) = SANDBOX"
    by (simp add: example_defs)
  have parts: "split_on CHR ''.''
      ''eyJhbGciOiJFUzI1NiIsIng1YyI6WyJRUT09IiwiUWc9PSIsIlF3PT0iXX0.eyJidW5kbGVJZCI6ImNvbS5leGFtcGxlIiwiZW52aXJvbm1lbnQiOiJTYW5kYm94In0.c2ln'' =
      [''eyJhbGciOiJFUzI1NiIsIng1YyI6WyJRUT09IiwiUWc9PSIsIlF3PT0iXX0'',
       ''eyJidW5kbGVJZCI6ImNvbS5leGFtcGxlIiwiZW52aXJvbm1lbnQiOiJTYW5kYm94In0'', ''c2ln'']"
    by simp
  have payload: \<open>base64url_decode example_platform
      ''eyJidW5kbGVJZCI6ImNvbS5leGFtcGxlIiwiZW52aXJvbm1lbnQiOiJTYW5kYm94In0'' =
      Some (char_codes ''{"bundleId":"com.example","environment":"Sandbox"}'')\<close>
    \<open>JSON_parse example_platform (TextDecoder_decode example_platform
      (char_codes ''{"bundleId":"com.example","environment":"Sandbox"}'')) = Some ?d\<close>
    "identity_validator ?d = Some True"
    by (simp_all add: example_defs)
  have header: \<open>base64url_decode example_platform
      ''eyJhbGciOiJFUzI1NiIsIng1YyI6WyJRUT09IiwiUWc9PSIsIlF3PT0iXX0'' =
      Some (char_codes ''{"alg":"ES256","x5c":["QQ==","Qg==","Qw=="]}'')\<close>
    \<open>JSON_parse example_platform (TextDecoder_decode example_platform
      (char_codes ''{"alg":"ES256","x5c":["QQ==","Qg==","Qw=="]}'')) =
      Some (JObj [(''alg'', JStr ''ES256''), (''x5c'', JArr [JStr ''QQ=='', JStr ''Qg=='', JStr ''Qw==''])])\<close>
    "property (JObj [(''alg'', JStr ''ES256''), (''x5c'', JArr [JStr ''QQ=='', JStr ''Qg=='', JStr ''Qw==''])]) ''x5c'' =
      Inr (Some (JArr [JStr ''QQ=='', JStr ''Qg=='', JStr ''Qw=='']))"
    by (simp_all add: example_defs)
  have certs: "atob example_platform (JStr ''QQ=='') = Some ''A''"
    "atob example_platform (JStr ''Qg=='') = Some ''B''"
    by (simp_all add: example_defs)
  have date: "\<exists>date. extractSignedDate rt' ?d = Inr date" for rt'
    by (simp add: extractSignedDate_def)
  show ?thesis
    using every_call_invokes_the_chain_primitive
            [where validator = identity_validator and ext = extractSignedDate
               and rt = "\<lparr>now = 0, generateKeyCalls = 0\<rparr>" and t = 1000,
             OF env parts payload header certs date]
    by (simp add: CACHE_TIME_LIMIT_def)
qed

section \<open>Bypass environments\<close>

text \<open>
  C5. In a verifier configured for XCODE or LOCAL_TESTING, for a token of three parts
  whose payload part decodes to a value that passes the structural validator, the
  outcome of each of the four typed operations is decided by the identity checks on the
  unverified payload alone, and nothing is assumed about the header part or about the
  signature part: chain and signature verification are skipped.
  A transaction fails with INVALID_APP_IDENTIFIER when its bundleId is not the
  configured one, else with INVALID_ENVIRONMENT when its environment is not the
  configured one, else it is returned. Renewal info fails with INVALID_ENVIRONMENT when
  its environment is not the configured one, else it is returned. A notification is
  judged in the same way as a transaction on the bundleId and the environment that are
  extracted from it, in particular on those of its data object when it has one. An app
  transaction is judged on its bundleId and its receiptType. The appAppleId is not
  compared, since the environment is not PRODUCTION. So each operation returns the
  decoded payload exactly when the identity fields match.
\<close>

theorem bypass_environments_skip_verification:
  assumes env: "environment this = XCODE \<or> environment this = LOCAL_TESTING"
    and parts: "split_on CHR ''.'' jwt = [header, payload, signature]"
    and payload: "base64url_decode P payload = Some pb"
      "JSON_parse P (TextDecoder_decode P pb) = Some d"
  shows
    "(JWSTransactionDecodedPayloadValidator P d = Some True \<and> d \<noteq> JNull \<longrightarrow>
      verifyAndDecodeTransaction P this rt jwt =
        (rt, if field_of d ''bundleId'' \<noteq> Some (JStr (bundleId this))
             then Inl (VerificationException INVALID_APP_IDENTIFIER None)
             else if field_of d ''environment'' \<noteq> Some (JStr (env_value (environment this)))
             then Inl (VerificationException INVALID_ENVIRONMENT None)
             else Inr d))
     \<and> (JWSRenewalInfoDecodedPayloadValidator P d = Some True \<and> d \<noteq> JNull \<longrightarrow>
      verifyAndDecodeRenewalInfo P this rt jwt =
        (rt, if field_of d ''environment'' \<noteq> Some (JStr (env_value (environment this)))
             then Inl (VerificationException INVALID_ENVIRONMENT None)
             else Inr d))
     \<and> (ResponseBodyV2DecodedPayloadValidator P d = Some True
        \<and> notification_identity d = Inr (bid, aid, e) \<longrightarrow>
      verifyAndDecodeNotification P this rt jwt =
        (rt, if bid \<noteq> Some (JStr (bundleId this))
             then Inl (VerificationException INVALID_APP_IDENTIFIER None)
             else if e \<noteq> Some (JStr (env_value (environment this)))
             then Inl (VerificationException INVALID_ENVIRONMENT None)
             else Inr d))
     \<and> (ResponseBodyV2DecodedPayloadValidator P d = Some True
        \<and> field_of d ''data'' = Some (JObj kvs) \<longrightarrow>
      verifyAndDecodeNotification P this rt jwt =
        (rt, if map_of kvs ''bundleId'' \<noteq> Some (JStr (bundleId this))
             then Inl (VerificationException INVALID_APP_IDENTIFIER None)
             else if map_of kvs ''environment'' \<noteq> Some (JStr (env_value (environment this)))
             then Inl (VerificationException INVALID_ENVIRONMENT None)
             else Inr d))
     \<and> (AppTransactionValidator P d = Some True \<and> d \<noteq> JNull \<longrightarrow>
      verifyAndDecodeAppTransaction P this rt jwt =
        (rt, if field_of d ''bundleId'' \<noteq> Some (JStr (bundleId this))
             then Inl (VerificationException INVALID_APP_IDENTIFIER None)
             else if field_of d ''receiptType'' \<noteq> Some (JStr (env_value (environment this)))
             then Inl (VerificationException INVALID_ENVIRONMENT None)
             else Inr d))"
proof -
  have skip: "verifyJWT P this rt jwt validator ext = (rt, Inr d)"
    if "validator d = Some True" for validator ext
    by (rule evaluate_verifyJWT_bypass
          [where validator = validator, OF parts payload that env])
  from env have not_production: "environment this \<noteq> PRODUCTION"
    by auto
  show ?thesis
  proof (intro conjI impI; (elim conjE)?)
    assume "JWSTransactionDecodedPayloadValidator P d = Some True" and "d \<noteq> JNull"
    then show "verifyAndDecodeTransaction P this rt jwt =
        (rt, if field_of d ''bundleId'' \<noteq> Some (JStr (bundleId this))
             then Inl (VerificationException INVALID_APP_IDENTIFIER None)
             else if field_of d ''environment'' \<noteq> Some (JStr (env_value (environment this)))
             then Inl (VerificationException INVALID_ENVIRONMENT None)
             else Inr d)"
      by (simp add: verifyAndDecodeTransaction_def skip and_then_simps
            transaction_checks_def strict_ne_string_def field_of_property)
  next
    assume "JWSRenewalInfoDecodedPayloadValidator P d = Some True" and "d \<noteq> JNull"
    then show "verifyAndDecodeRenewalInfo P this rt jwt =
        (rt, if field_of d ''environment'' \<noteq> Some (JStr (env_value (environment this)))
             then Inl (VerificationException INVALID_ENVIRONMENT None)
             else Inr d)"
      by (simp add: verifyAndDecodeRenewalInfo_def skip and_then_simps
            renewal_info_checks_def strict_ne_string_def field_of_property)
  next
    assume "ResponseBodyV2DecodedPayloadValidator P d = Some True"
      and "notification_identity d = Inr (bid, aid, e)"
    then show "verifyAndDecodeNotification P this rt jwt =
        (rt, if bid \<noteq> Some (JStr (bundleId this))
             then Inl (VerificationException INVALID_APP_IDENTIFIER None)
             else if e \<noteq> Some (JStr (env_value (environment this)))
             then Inl (VerificationException INVALID_ENVIRONMENT None)
             else Inr d)"
      using not_production
      by (simp add: verifyAndDecodeNotification_def skip and_then_simps
            notification_checks_def verifyNotification_def strict_ne_string_def)
  next
    assume valid: "ResponseBodyV2DecodedPayloadValidator P d = Some True"
      and data: "field_of d ''data'' = Some (JObj kvs)"
    from data have "d \<noteq> JNull"
      by (auto simp: field_of_def)
    with data have "property d ''data'' = Inr (Some (JObj kvs))"
      by (simp add: field_of_property)
    then have "notification_identity d =
        Inr (map_of kvs ''bundleId'', map_of kvs ''appAppleId'', map_of kvs ''environment'')"
      by (simp add: notification_identity_def if_truthy_object identity_fields_def)
    with valid show "verifyAndDecodeNotification P this rt jwt =
        (rt, if map_of kvs ''bundleId'' \<noteq> Some (JStr (bundleId this))
             then Inl (VerificationException INVALID_APP_IDENTIFIER None)
             else if map_of kvs ''environment'' \<noteq> Some (JStr (env_value (environment this)))
             then Inl (VerificationException INVALID_ENVIRONMENT None)
             else Inr d)"
      using not_production
      by (simp add: verifyAndDecodeNotification_def skip and_then_simps
            notification_checks_def verifyNotification_def strict_ne_string_def)
  next
    assume "AppTransactionValidator P d = Some True" and "d \<noteq> JNull"
    then show "verifyAndDecodeAppTransaction P this rt jwt =
        (rt, if field_of d ''bundleId'' \<noteq> Some (JStr (bundleId this))
             then Inl (VerificationException INVALID_APP_IDENTIFIER None)
             else if field_of d ''receiptType'' \<noteq> Some (JStr (env_value (environment this)))
             then Inl (VerificationException INVALID_ENVIRONMENT None)
             else Inr d)"
      using not_production
      by (simp add: verifyAndDecodeAppTransaction_def skip and_then_simps
            app_transaction_checks_def strict_ne_string_def field_of_property)
  qed
qed

theorem bypass_environments_skip_verification_witness:
  \<open>verifyAndDecodeTransaction example_platform (example_verifier XCODE) (at_time 0)
      ''!!!.eyJidW5kbGVJZCI6ImNvbS5leGFtcGxlIiwiZW52aXJvbm1lbnQiOiJYY29kZSJ9.garbage'' =
     (at_time 0, Inr (JObj [(''bundleId'', JStr ''com.example''), (''environment'', JStr ''Xcode'')]))
   \<and> verifyAndDecodeTransaction example_platform (example_verifier XCODE) (at_time 0)
      ''!!!.eyJidW5kbGVJZCI6ImNvbS5vdGhlciIsImVudmlyb25tZW50IjoiWGNvZGUifQ.garbage'' =
     (at_time 0, Inl (VerificationException INVALID_APP_IDENTIFIER None))
   \<and> verifyAndDecodeTransaction example_platform (example_verifier XCODE) (at_time 0)
      ''!!!.eyJidW5kbGVJZCI6ImNvbS5leGFtcGxlIiwiZW52aXJvbm1lbnQiOiJTYW5kYm94In0.garbage'' =
     (at_time 0, Inl (VerificationException INVALID_ENVIRONMENT None))
   \<and> verifyAndDecodeRenewalInfo example_platform (example_verifier XCODE) (at_time 0)
      ''!!!.eyJidW5kbGVJZCI6ImNvbS5vdGhlciIsImVudmlyb25tZW50IjoiWGNvZGUifQ.garbage'' =
     (at_time 0, Inr (JObj [(''bundleId'', JStr ''com.other''), (''environment'', JStr ''Xcode'')]))
   \<and> verifyAndDecodeRenewalInfo example_platform (example_verifier XCODE) (at_time 0)
      ''!!!.eyJidW5kbGVJZCI6ImNvbS5leGFtcGxlIiwiZW52aXJvbm1lbnQiOiJTYW5kYm94In0.garbage'' =
     (at_time 0, Inl (VerificationException INVALID_ENVIRONMENT None))
   \<and> verifyAndDecodeNotification example_platform (example_verifier XCODE) (at_time 0)
      ''!!!.eyJkYXRhIjp7ImFwcEFwcGxlSWQiOjcsImJ1bmRsZUlkIjoiY29tLmV4YW1wbGUiLCJlbnZpcm9ubWVudCI6Ilhjb2RlIn19.garbage'' =
     (at_time 0, Inr (JObj [(''data'', JObj [(''appAppleId'', JNum 7), (''bundleId'', JStr ''com.example''), (''environment'', JStr ''Xcode'')])]))
   \<and> verifyAndDecodeNotification example_platform (example_verifier XCODE) (at_time 0)
      ''!!!.eyJkYXRhIjp7ImJ1bmRsZUlkIjoiY29tLm90aGVyIiwiZW52aXJvbm1lbnQiOiJYY29kZSJ9fQ.garbage'' =
     (at_time 0, Inl (VerificationException INVALID_APP_IDENTIFIER None))
   \<and> verifyAndDecodeNotification example_platform (example_verifier XCODE) (at_time 0)
      ''!!!.eyJzdW1tYXJ5Ijp7ImJ1bmRsZUlkIjoiY29tLmV4YW1wbGUiLCJlbnZpcm9ubWVudCI6IlNhbmRib3gifX0.garbage'' =
     (at_time 0, Inl (VerificationException INVALID_ENVIRONMENT None))
   \<and> verifyAndDecodeNotification example_platform (example_verifier XCODE) (at_time 0)
      ''!!!.eyJleHRlcm5hbFB1cmNoYXNlVG9rZW4iOnsiZXh0ZXJuYWxQdXJjaGFzZUlkIjoiU0FOREJPWF8xIiwiYnVuZGxlSWQiOiJjb20uZXhhbXBsZSIsImFwcEFwcGxlSWQiOjd9fQ.garbage'' =
     (at_time 0, Inl (VerificationException INVALID_ENVIRONMENT None))
   \<and> verifyAndDecodeAppTransaction example_platform (example_verifier XCODE) (at_time 0)
      ''!!!.eyJidW5kbGVJZCI6ImNvbS5leGFtcGxlIiwicmVjZWlwdFR5cGUiOiJYY29kZSJ9.garbage'' =
     (at_time 0, Inr (JObj [(''bundleId'', JStr ''com.example''), (''receiptType'', JStr ''Xcode'')]))
   \<and> verifyAndDecodeAppTransaction example_platform (example_verifier XCODE) (at_time 0)
      ''!!!.eyJidW5kbGVJZCI6ImNvbS5leGFtcGxlIiwicmVjZWlwdFR5cGUiOiJTYW5kYm94In0.garbage'' =
     (at_time 0, Inl (VerificationException INVALID_ENVIRONMENT None))\<close>
proof -
  have env: "environment (example_verifier XCODE) = XCODE
      \<or> environment (example_verifier XCODE) = LOCAL_TESTING"
    by (simp add: example_defs)
  note inst = bypass_environments_skip_verification
    [where P = example_platform and this = "example_verifier XCODE" and rt = "at_time 0",
     OF env]
  have parts_XCODE: "split_on CHR ''.'' ''!!!.eyJidW5kbGVJZCI6ImNvbS5leGFtcGxlIiwiZW52aXJvbm1lbnQiOiJYY29kZSJ9.garbage'' =
      [''!!!'', ''eyJidW5kbGVJZCI6ImNvbS5leGFtcGxlIiwiZW52aXJvbm1lbnQiOiJYY29kZSJ9'', ''garbage'']"
    by simp
  have payload_XCODE: \<open>base64url_decode example_platform ''eyJidW5kbGVJZCI6ImNvbS5leGFtcGxlIiwiZW52aXJvbm1lbnQiOiJYY29kZSJ9'' =
      Some (char_codes ''{"bundleId":"com.example","environment":"Xcode"}'')\<close>
    \<open>JSON_parse example_platform (TextDecoder_decode example_platform
      (char_codes ''{"bundleId":"com.example","environment":"Xcode"}'')) =
      Some (JObj [(''bundleId'', JStr ''com.example''), (''environment'', JStr ''Xcode'')])\<close>
    by (simp_all add: example_defs)
  have accepted_1: "JWSTransactionDecodedPayloadValidator example_platform (JObj [(''bundleId'', JStr ''com.example''), (''environment'', JStr ''Xcode'')]) = Some True
      \<and> (JObj [(''bundleId'', JStr ''com.example''), (''environment'', JStr ''Xcode'')]) \<noteq> JNull"
    by (simp add: ResponseBodyV2DecodedPayloadValidator_def DataValidator_def field_of_def
          notification_identity_def identity_fields_def token_identity_fields_def
          if_truthy_def startsWith_def example_defs)
  have parts_XOTHER: "split_on CHR ''.'' ''!!!.eyJidW5kbGVJZCI6ImNvbS5vdGhlciIsImVudmlyb25tZW50IjoiWGNvZGUifQ.garbage'' =
      [''!!!'', ''eyJidW5kbGVJZCI6ImNvbS5vdGhlciIsImVudmlyb25tZW50IjoiWGNvZGUifQ'', ''garbage'']"
    by simp
  have payload_XOTHER: \<open>base64url_decode example_platform ''eyJidW5kbGVJZCI6ImNvbS5vdGhlciIsImVudmlyb25tZW50IjoiWGNvZGUifQ'' =
      Some (char_codes ''{"bundleId":"com.other","environment":"Xcode"}'')\<close>
    \<open>JSON_parse example_platform (TextDecoder_decode example_platform
      (char_codes ''{"bundleId":"com.other","environment":"Xcode"}'')) =
      Some (JObj [(''bundleId'', JStr ''com.other''), (''environment'', JStr ''Xcode'')])\<close>
    by (simp_all add: example_defs)
  have accepted_2: "JWSTransactionDecodedPayloadValidator example_platform (JObj [(''bundleId'', JStr ''com.other''), (''environment'', JStr ''Xcode'')]) = Some True
      \<and> (JObj [(''bundleId'', JStr ''com.other''), (''environment'', JStr ''Xcode'')]) \<noteq> JNull"
    by (simp add: ResponseBodyV2DecodedPayloadValidator_def DataValidator_def field_of_def
          notification_identity_def identity_fields_def token_identity_fields_def
          if_truthy_def startsWith_def example_defs)
  have parts_SANDBOX: "split_on CHR ''.'' ''!!!.eyJidW5kbGVJZCI6ImNvbS5leGFtcGxlIiwiZW52aXJvbm1lbnQiOiJTYW5kYm94In0.garbage'' =
      [''!!!'', ''eyJidW5kbGVJZCI6ImNvbS5leGFtcGxlIiwiZW52aXJvbm1lbnQiOiJTYW5kYm94In0'', ''garbage'']"
    by simp
  have payload_SANDBOX: \<open>base64url_decode example_platform ''eyJidW5kbGVJZCI6ImNvbS5leGFtcGxlIiwiZW52aXJvbm1lbnQiOiJTYW5kYm94In0'' =
      Some (char_codes ''{"bundleId":"com.example","environment":"Sandbox"}'')\<close>
    \<open>JSON_parse example_platform (TextDecoder_decode example_platform
      (char_codes ''{"bundleId":"com.example","environment":"Sandbox"}'')) =
      Some (JObj [(''bundleId'', JStr ''com.example''), (''environment'', JStr ''Sandbox'')])\<close>
    by (simp_all add: example_defs)
  have accepted_3: "JWSTransactionDecodedPayloadValidator example_platform (JObj [(''bundleId'', JStr ''com.example''), (''environment'', JStr ''Sandbox'')]) = Some True
      \<and> (JObj [(''bundleId'', JStr ''com.example''), (''environment'', JStr ''Sandbox'')]) \<noteq> JNull"
    by (simp add: ResponseBodyV2DecodedPayloadValidator_def DataValidator_def field_of_def
          notification_identity_def identity_fields_def token_identity_fields_def
          if_truthy_def startsWith_def example_defs)
  have accepted_4: "JWSRenewalInfoDecodedPayloadValidator example_platform (JObj [(''bundleId'', JStr ''com.other''), (''environment'', JStr ''Xcode'')]) = Some True
      \<and> (JObj [(''bundleId'', JStr ''com.other''), (''environment'', JStr ''Xcode'')]) \<noteq> JNull"
    by (simp add: ResponseBodyV2DecodedPayloadValidator_def DataValidator_def field_of_def
          notification_identity_def identity_fields_def token_identity_fields_def
          if_truthy_def startsWith_def example_defs)
  have accepted_5: "JWSRenewalInfoDecodedPayloadValidator example_platform (JObj [(''bundleId'', JStr ''com.example''), (''environment'', JStr ''Sandbox'')]) = Some True
      \<and> (JObj [(''bundleId'', JStr ''com.example''), (''environment'', JStr ''Sandbox'')]) \<noteq> JNull"
    by (simp add: ResponseBodyV2DecodedPayloadValidator_def DataValidator_def field_of_def
          notification_identity_def identity_fields_def token_identity_fields_def
          if_truthy_def startsWith_def example_defs)
  have parts_XNOTE: "split_on CHR ''.'' ''!!!.eyJkYXRhIjp7ImFwcEFwcGxlSWQiOjcsImJ1bmRsZUlkIjoiY29tLmV4YW1wbGUiLCJlbnZpcm9ubWVudCI6Ilhjb2RlIn19.garbage'' =
      [''!!!'', ''eyJkYXRhIjp7ImFwcEFwcGxlSWQiOjcsImJ1bmRsZUlkIjoiY29tLmV4YW1wbGUiLCJlbnZpcm9ubWVudCI6Ilhjb2RlIn19'', ''garbage'']"
    by simp
  have payload_XNOTE: \<open>base64url_decode example_platform ''eyJkYXRhIjp7ImFwcEFwcGxlSWQiOjcsImJ1bmRsZUlkIjoiY29tLmV4YW1wbGUiLCJlbnZpcm9ubWVudCI6Ilhjb2RlIn19'' =
      Some (char_codes ''{"data":{"appAppleId":7,"bundleId":"com.example","environment":"Xcode"}}'')\<close>
    \<open>JSON_parse example_platform (TextDecoder_decode example_platform
      (char_codes ''{"data":{"appAppleId":7,"bundleId":"com.example","environment":"Xcode"}}'')) =
      Some (JObj [(''data'', JObj [(''appAppleId'', JNum 7), (''bundleId'', JStr ''com.example''), (''environment'', JStr ''Xcode'')])])\<close>
    by (simp_all add: example_defs)
  have accepted_6: "ResponseBodyV2DecodedPayloadValidator example_platform (JObj [(''data'', JObj [(''appAppleId'', JNum 7), (''bundleId'', JStr ''com.example''), (''environment'', JStr ''Xcode'')])]) = Some True
      \<and> field_of (JObj [(''data'', JObj [(''appAppleId'', JNum 7), (''bundleId'', JStr ''com.example''), (''environment'', JStr ''Xcode'')])]) ''data'' = Some (JObj [(''appAppleId'', JNum 7), (''bundleId'', JStr ''com.example''), (''environment'', JStr ''Xcode'')])"
    by (simp add: ResponseBodyV2DecodedPayloadValidator_def DataValidator_def field_of_def
          notification_identity_def identity_fields_def token_identity_fields_def
          if_truthy_def startsWith_def example_defs)
  have parts_XNOTEOTHER: "split_on CHR ''.'' ''!!!.eyJkYXRhIjp7ImJ1bmRsZUlkIjoiY29tLm90aGVyIiwiZW52aXJvbm1lbnQiOiJYY29kZSJ9fQ.garbage'' =
      [''!!!'', ''eyJkYXRhIjp7ImJ1bmRsZUlkIjoiY29tLm90aGVyIiwiZW52aXJvbm1lbnQiOiJYY29kZSJ9fQ'', ''garbage'']"
    by simp
  have payload_XNOTEOTHER: \<open>base64url_decode example_platform ''eyJkYXRhIjp7ImJ1bmRsZUlkIjoiY29tLm90aGVyIiwiZW52aXJvbm1lbnQiOiJYY29kZSJ9fQ'' =
      Some (char_codes ''{"data":{"bundleId":"com.other","environment":"Xcode"}}'')\<close>
    \<open>JSON_parse example_platform (TextDecoder_decode example_platform
      (char_codes ''{"data":{"bundleId":"com.other","environment":"Xcode"}}'')) =
      Some (JObj [(''data'', JObj [(''bundleId'', JStr ''com.other''), (''environment'', JStr ''Xcode'')])])\<close>
    by (simp_all add: example_defs)
  have accepted_7: "ResponseBodyV2DecodedPayloadValidator example_platform (JObj [(''data'', JObj [(''bundleId'', JStr ''com.other''), (''environment'', JStr ''Xcode'')])]) = Some True
      \<and> field_of (JObj [(''data'', JObj [(''bundleId'', JStr ''com.other''), (''environment'', JStr ''Xcode'')])]) ''data'' = Some (JObj [(''bundleId'', JStr ''com.other''), (''environment'', JStr ''Xcode'')])"
    by (simp add: ResponseBodyV2DecodedPayloadValidator_def DataValidator_def field_of_def
          notification_identity_def identity_fields_def token_identity_fields_def
          if_truthy_def startsWith_def example_defs)
  have parts_XSUMMARY: "split_on CHR ''.'' ''!!!.eyJzdW1tYXJ5Ijp7ImJ1bmRsZUlkIjoiY29tLmV4YW1wbGUiLCJlbnZpcm9ubWVudCI6IlNhbmRib3gifX0.garbage'' =
      [''!!!'', ''eyJzdW1tYXJ5Ijp7ImJ1bmRsZUlkIjoiY29tLmV4YW1wbGUiLCJlbnZpcm9ubWVudCI6IlNhbmRib3gifX0'', ''garbage'']"
    by simp
  have payload_XSUMMARY: \<open>base64url_decode example_platform ''eyJzdW1tYXJ5Ijp7ImJ1bmRsZUlkIjoiY29tLmV4YW1wbGUiLCJlbnZpcm9ubWVudCI6IlNhbmRib3gifX0'' =
      Some (char_codes ''{"summary":{"bundleId":"com.example","environment":"Sandbox"}}'')\<close>
    \<open>JSON_parse example_platform (TextDecoder_decode example_platform
      (char_codes ''{"summary":{"bundleId":"com.example","environment":"Sandbox"}}'')) =
      Some (JObj [(''summary'', JObj [(''bundleId'', JStr ''com.example''), (''environment'', JStr ''Sandbox'')])])\<close>
    by (simp_all add: example_defs)
  have accepted_8: "ResponseBodyV2DecodedPayloadValidator example_platform (JObj [(''summary'', JObj [(''bundleId'', JStr ''com.example''), (''environment'', JStr ''Sandbox'')])]) = Some True
      \<and> notification_identity (JObj [(''summary'', JObj [(''bundleId'', JStr ''com.example''), (''environment'', JStr ''Sandbox'')])]) =
          Inr (Some (JStr ''com.example''), None, Some (JStr ''Sandbox''))"
    by (simp add: ResponseBodyV2DecodedPayloadValidator_def DataValidator_def field_of_def
          notification_identity_def identity_fields_def token_identity_fields_def
          if_truthy_def startsWith_def example_defs)
  have parts_TOKEN: "split_on CHR ''.'' ''!!!.eyJleHRlcm5hbFB1cmNoYXNlVG9rZW4iOnsiZXh0ZXJuYWxQdXJjaGFzZUlkIjoiU0FOREJPWF8xIiwiYnVuZGxlSWQiOiJjb20uZXhhbXBsZSIsImFwcEFwcGxlSWQiOjd9fQ.garbage'' =
      [''!!!'', ''eyJleHRlcm5hbFB1cmNoYXNlVG9rZW4iOnsiZXh0ZXJuYWxQdXJjaGFzZUlkIjoiU0FOREJPWF8xIiwiYnVuZGxlSWQiOiJjb20uZXhhbXBsZSIsImFwcEFwcGxlSWQiOjd9fQ'', ''garbage'']"
    by simp
  have payload_TOKEN: \<open>base64url_decode example_platform ''eyJleHRlcm5hbFB1cmNoYXNlVG9rZW4iOnsiZXh0ZXJuYWxQdXJjaGFzZUlkIjoiU0FOREJPWF8xIiwiYnVuZGxlSWQiOiJjb20uZXhhbXBsZSIsImFwcEFwcGxlSWQiOjd9fQ'' =
      Some (char_codes ''{"externalPurchaseToken":{"externalPurchaseId":"SANDBOX_1","bundleId":"com.example","appAppleId":7}}'')\<close>
    \<open>JSON_parse example_platform (TextDecoder_decode example_platform
      (char_codes ''{"externalPurchaseToken":{"externalPurchaseId":"SANDBOX_1","bundleId":"com.example","appAppleId":7}}'')) =
      Some (JObj [(''externalPurchaseToken'', JObj [(''externalPurchaseId'', JStr ''SANDBOX_1''), (''bundleId'', JStr ''com.example''), (''appAppleId'', JNum 7)])])\<close>
    by (simp_all add: example_defs)
  have accepted_9: "ResponseBodyV2DecodedPayloadValidator example_platform (JObj [(''externalPurchaseToken'', JObj [(''externalPurchaseId'', JStr ''SANDBOX_1''), (''bundleId'', JStr ''com.example''), (''appAppleId'', JNum 7)])]) = Some True
      \<and> notification_identity (JObj [(''externalPurchaseToken'', JObj [(''externalPurchaseId'', JStr ''SANDBOX_1''), (''bundleId'', JStr ''com.example''), (''appAppleId'', JNum 7)])]) =
          Inr (Some (JStr ''com.example''), Some (JNum 7), Some (JStr ''Sandbox''))"
    by (simp add: ResponseBodyV2DecodedPayloadValidator_def DataValidator_def field_of_def
          notification_identity_def identity_fields_def token_identity_fields_def
          if_truthy_def startsWith_def example_defs)
  have parts_XAPP: "split_on CHR ''.'' ''!!!.eyJidW5kbGVJZCI6ImNvbS5leGFtcGxlIiwicmVjZWlwdFR5cGUiOiJYY29kZSJ9.garbage'' =
      [''!!!'', ''eyJidW5kbGVJZCI6ImNvbS5leGFtcGxlIiwicmVjZWlwdFR5cGUiOiJYY29kZSJ9'', ''garbage'']"
    by simp
  have payload_XAPP: \<open>base64url_decode example_platform ''eyJidW5kbGVJZCI6ImNvbS5leGFtcGxlIiwicmVjZWlwdFR5cGUiOiJYY29kZSJ9'' =
      Some (char_codes ''{"bundleId":"com.example","receiptType":"Xcode"}'')\<close>
    \<open>JSON_parse example_platform (TextDecoder_decode example_platform
      (char_codes ''{"bundleId":"com.example","receiptType":"Xcode"}'')) =
      Some (JObj [(''bundleId'', JStr ''com.example''), (''receiptType'', JStr ''Xcode'')])\<close>
    by (simp_all add: example_defs)
  have accepted_10: "AppTransactionValidator example_platform (JObj [(''bundleId'', JStr ''com.example''), (''receiptType'', JStr ''Xcode'')]) = Some True
      \<and> (JObj [(''bundleId'', JStr ''com.example''), (''receiptType'', JStr ''Xcode'')]) \<noteq> JNull"
    by (simp add: ResponseBodyV2DecodedPayloadValidator_def DataValidator_def field_of_def
          notification_identity_def identity_fields_def token_identity_fields_def
          if_truthy_def startsWith_def example_defs)
  have parts_APPSANDBOX: "split_on CHR ''.'' ''!!!.eyJidW5kbGVJZCI6ImNvbS5leGFtcGxlIiwicmVjZWlwdFR5cGUiOiJTYW5kYm94In0.garbage'' =
      [''!!!'', ''eyJidW5kbGVJZCI6ImNvbS5leGFtcGxlIiwicmVjZWlwdFR5cGUiOiJTYW5kYm94In0'', ''garbage'']"
    by simp
  have payload_APPSANDBOX: \<open>base64url_decode example_platform ''eyJidW5kbGVJZCI6ImNvbS5leGFtcGxlIiwicmVjZWlwdFR5cGUiOiJTYW5kYm94In0'' =
      Some (char_codes ''{"bundleId":"com.example","receiptType":"Sandbox"}'')\<close>
    \<open>JSON_parse example_platform (TextDecoder_decode example_platform
      (char_codes ''{"bundleId":"com.example","receiptType":"Sandbox"}'')) =
      Some (JObj [(''bundleId'', JStr ''com.example''), (''receiptType'', JStr ''Sandbox'')])\<close>
    by (simp_all add: example_defs)
  have accepted_11: "AppTransactionValidator example_platform (JObj [(''bundleId'', JStr ''com.example''), (''receiptType'', JStr ''Sandbox'')]) = Some True
      \<and> (JObj [(''bundleId'', JStr ''com.example''), (''receiptType'', JStr ''Sandbox'')]) \<noteq> JNull"
    by (simp add: ResponseBodyV2DecodedPayloadValidator_def DataValidator_def field_of_def
          notification_identity_def identity_fields_def token_identity_fields_def
          if_truthy_def startsWith_def example_defs)
  show ?thesis
    using inst [OF parts_XCODE payload_XCODE, THEN conjunct1, rule_format, OF accepted_1]
      inst [OF parts_XOTHER payload_XOTHER, THEN conjunct1, rule_format, OF accepted_2]
      inst [OF parts_SANDBOX payload_SANDBOX, THEN conjunct1, rule_format, OF accepted_3]
      inst [OF parts_XOTHER payload_XOTHER, THEN conjunct2, THEN conjunct1, rule_format, OF accepted_4]
      inst [OF parts_SANDBOX payload_SANDBOX, THEN conjunct2, THEN conjunct1, rule_format, OF accepted_5]
      inst [OF parts_XNOTE payload_XNOTE, THEN conjunct2, THEN conjunct2, THEN conjunct2, THEN conjunct1, rule_format, OF accepted_6]
      inst [OF parts_XNOTEOTHER payload_XNOTEOTHER, THEN conjunct2, THEN conjunct2, THEN conjunct2, THEN conjunct1, rule_format, OF accepted_7]
      inst [OF parts_XSUMMARY payload_XSUMMARY, THEN conjunct2, THEN conjunct2, THEN conjunct1, rule_format, OF accepted_8]
      inst [OF parts_TOKEN payload_TOKEN, THEN conjunct2, THEN conjunct2, THEN conjunct1, rule_format, OF accepted_9]
      inst [OF parts_XAPP payload_XAPP, THEN conjunct2, THEN conjunct2, THEN conjunct2, THEN conjunct2, rule_format, OF accepted_10]
      inst [OF parts_APPSANDBOX payload_APPSANDBOX, THEN conjunct2, THEN conjunct2, THEN conjunct2, THEN conjunct2, rule_format, OF accepted_11]
    by (simp add: field_of_def example_verifier_def)
qed

section \<open>Identity checks of the typed entry points\<close>

text \<open>
  C3. The claim is that transactions and renewal info whose bundleId differs from the
  configured one fail with INVALID_APP_IDENTIFIER. For transactions this holds, once
  verifyJWT has returned the payload. verifyAndDecodeRenewalInfo compares the
  environment only: here a verifier for XCODE and the bundle com.example returns a
  renewal-info payload of the bundle com.other.
\<close>

theorem renewal_info_with_other_bundleId_is_returned:
  \<open>verifyAndDecodeRenewalInfo example_platform (example_verifier XCODE) (at_time 0)
     ''eyJhbGciOiJFUzI1NiIsIng1YyI6WyJRUT09IiwiUWc9PSIsIlF3PT0iXX0.eyJidW5kbGVJZCI6ImNvbS5vdGhlciIsImVudmlyb25tZW50IjoiWGNvZGUifQ.c2ln'' =
   (at_time 0, Inr (JObj [(''bundleId'', JStr ''com.other''), (''environment'', JStr ''Xcode'')]))
   \<and> property (JObj [(''bundleId'', JStr ''com.other''), (''environment'', JStr ''Xcode'')]) ''bundleId'' = Inr (Some (JStr ''com.other''))
   \<and> bundleId (example_verifier XCODE) = ''com.example''\<close>
  by (simp add: verifyAndDecodeRenewalInfo_def and_then_def renewal_info_checks_def
        strict_ne_string_def verifyJWT_def verify_body_def rethrow_def example_defs)

text \<open>
  C3, as amended. Given the payload returned by verifyJWT: a transaction whose bundleId
  is not the configured one fails with INVALID_APP_IDENTIFIER; renewal info is returned
  when its environment is the configured one and fails with INVALID_ENVIRONMENT when
  it is not, whatever its bundleId.
\<close>

theorem bundleId_is_checked_for_transactions_only:
  "(verifyJWT P this rt jwt (JWSTransactionDecodedPayloadValidator P) extractSignedDate =
        (rt', Inr d)
      \<and> property d ''bundleId'' = Inr b \<and> b \<noteq> Some (JStr (bundleId this)) \<longrightarrow>
    verifyAndDecodeTransaction P this rt jwt =
      (rt', Inl (VerificationException INVALID_APP_IDENTIFIER None)))
   \<and> (verifyJWT P this rt jwt (JWSRenewalInfoDecodedPayloadValidator P) extractSignedDate =
        (rt', Inr d)
      \<and> property d ''environment'' = Inr (Some (JStr (env_value (environment this)))) \<longrightarrow>
    verifyAndDecodeRenewalInfo P this rt jwt = (rt', Inr d))
   \<and> (verifyJWT P this rt jwt (JWSRenewalInfoDecodedPayloadValidator P) extractSignedDate =
        (rt', Inr d)
      \<and> property d ''environment'' = Inr e
      \<and> e \<noteq> Some (JStr (env_value (environment this))) \<longrightarrow>
    verifyAndDecodeRenewalInfo P this rt jwt =
      (rt', Inl (VerificationException INVALID_ENVIRONMENT None)))"
  by (simp add: verifyAndDecodeTransaction_def verifyAndDecodeRenewalInfo_def and_then_simps
        transaction_checks_def renewal_info_checks_def strict_ne_string_def)

theorem bundleId_is_checked_for_transactions_only_witness:
  \<open>verifyAndDecodeTransaction example_platform (example_verifier XCODE) (at_time 0)
      ''eyJhbGciOiJFUzI1NiIsIng1YyI6WyJRUT09IiwiUWc9PSIsIlF3PT0iXX0.eyJidW5kbGVJZCI6ImNvbS5vdGhlciIsImVudmlyb25tZW50IjoiWGNvZGUifQ.c2ln'' =
     (at_time 0, Inl (VerificationException INVALID_APP_IDENTIFIER None))
   \<and> verifyAndDecodeRenewalInfo example_platform (example_verifier XCODE) (at_time 0)
      ''eyJhbGciOiJFUzI1NiIsIng1YyI6WyJRUT09IiwiUWc9PSIsIlF3PT0iXX0.eyJidW5kbGVJZCI6ImNvbS5leGFtcGxlIiwiZW52aXJvbm1lbnQiOiJYY29kZSJ9.c2ln'' =
     (at_time 0, Inr (JObj [(''bundleId'', JStr ''com.example''), (''environment'', JStr ''Xcode'')]))
   \<and> verifyAndDecodeRenewalInfo example_platform (example_verifier XCODE) (at_time 0)
      ''eyJhbGciOiJFUzI1NiIsIng1YyI6WyJRUT09IiwiUWc9PSIsIlF3PT0iXX0.eyJidW5kbGVJZCI6ImNvbS5leGFtcGxlIiwiZW52aXJvbm1lbnQiOiJTYW5kYm94In0.c2ln'' =
     (at_time 0, Inl (VerificationException INVALID_ENVIRONMENT None))\<close>
proof -
  note evaluate = verifyJWT_def verify_body_def rethrow_def example_defs
  have transaction: "verifyJWT example_platform (example_verifier XCODE) (at_time 0)
        ''eyJhbGciOiJFUzI1NiIsIng1YyI6WyJRUT09IiwiUWc9PSIsIlF3PT0iXX0.eyJidW5kbGVJZCI6ImNvbS5vdGhlciIsImVudmlyb25tZW50IjoiWGNvZGUifQ.c2ln''
        (JWSTransactionDecodedPayloadValidator example_platform) extractSignedDate =
        (at_time 0, Inr (JObj [(''bundleId'', JStr ''com.other''), (''environment'', JStr ''Xcode'')]))
      \<and> property (JObj [(''bundleId'', JStr ''com.other''), (''environment'', JStr ''Xcode'')]) ''bundleId'' = Inr (Some (JStr ''com.other''))
      \<and> Some (JStr ''com.other'') \<noteq> Some (JStr (bundleId (example_verifier XCODE)))"
    by (simp add: evaluate)
  have renewal: "verifyJWT example_platform (example_verifier XCODE) (at_time 0)
        ''eyJhbGciOiJFUzI1NiIsIng1YyI6WyJRUT09IiwiUWc9PSIsIlF3PT0iXX0.eyJidW5kbGVJZCI6ImNvbS5leGFtcGxlIiwiZW52aXJvbm1lbnQiOiJYY29kZSJ9.c2ln''
        (JWSRenewalInfoDecodedPayloadValidator example_platform) extractSignedDate =
        (at_time 0, Inr (JObj [(''bundleId'', JStr ''com.example''), (''environment'', JStr ''Xcode'')]))
      \<and> property (JObj [(''bundleId'', JStr ''com.example''), (''environment'', JStr ''Xcode'')]) ''environment'' =
          Inr (Some (JStr (env_value (environment (example_verifier XCODE)))))"
    by (simp add: evaluate)
  have other_environment: "verifyJWT example_platform (example_verifier XCODE) (at_time 0)
        ''eyJhbGciOiJFUzI1NiIsIng1YyI6WyJRUT09IiwiUWc9PSIsIlF3PT0iXX0.eyJidW5kbGVJZCI6ImNvbS5leGFtcGxlIiwiZW52aXJvbm1lbnQiOiJTYW5kYm94In0.c2ln''
        (JWSRenewalInfoDecodedPayloadValidator example_platform) extractSignedDate =
        (at_time 0, Inr (JObj [(''bundleId'', JStr ''com.example''), (''environment'', JStr ''Sandbox'')]))
      \<and> property (JObj [(''bundleId'', JStr ''com.example''), (''environment'', JStr ''Sandbox'')]) ''environment'' = Inr (Some (JStr ''Sandbox''))
      \<and> Some (JStr ''Sandbox'') \<noteq> Some (JStr (env_value (environment (example_verifier XCODE))))"
    by (simp add: evaluate)
  show ?thesis
    using bundleId_is_checked_for_transactions_only
        [THEN conjunct1, rule_format, OF transaction]
      bundleId_is_checked_for_transactions_only
        [THEN conjunct2, THEN conjunct1, rule_format, OF renewal]
      bundleId_is_checked_for_transactions_only
        [THEN conjunct2, THEN conjunct2, rule_format, OF other_environment]
    by simp
qed

text \<open>
  C8. verifyAndDecodeNotification hands the payload returned by verifyJWT to
  verifyNotification with the three values it extracts, and returns the payload when
  that check passes. verifyNotification fails with INVALID_APP_IDENTIFIER when the
  bundleId differs from the configured one, or when the configured environment is
  PRODUCTION and the appAppleId differs from the configured one; otherwise it fails
  with INVALID_ENVIRONMENT when the environment differs from the configured one;
  otherwise it passes. So outside PRODUCTION, in SANDBOX for one, the appAppleId
  plays no part. The values are those of the data object when the payload has one, else
  those of the summary object when it has one. For a payload whose populated branch
  is externalPurchaseToken, with an externalPurchaseId that is a string or absent,
  bundleId and appAppleId are those of the token and the environment is Sandbox
  exactly when the externalPurchaseId starts with SANDBOX, and Production otherwise.
\<close>

theorem notification_identity_policy:
  "(verifyJWT P this rt signedPayload
        (ResponseBodyV2DecodedPayloadValidator P) extractSignedDate = (rt', Inr d)
      \<and> notification_identity d = Inr (bid, aid, env) \<longrightarrow>
    verifyAndDecodeNotification P this rt signedPayload =
      (rt', case verifyNotification this bid aid env of
              Inl e \<Rightarrow> Inl e
            | Inr u \<Rightarrow> Inr d))
   \<and> verifyNotification this bid aid env =
       (if bid \<noteq> Some (JStr (bundleId this))
        then Inl (VerificationException INVALID_APP_IDENTIFIER None)
        else if environment this = PRODUCTION \<and> aid \<noteq> map_option JNum (appAppleId this)
        then Inl (VerificationException INVALID_APP_IDENTIFIER None)
        else if env \<noteq> Some (JStr (env_value (environment this)))
        then Inl (VerificationException INVALID_ENVIRONMENT None)
        else Inr ())
   \<and> (property d ''data'' = Inr (Some (JObj dat)) \<longrightarrow>
      notification_identity d =
        Inr (map_of dat ''bundleId'', map_of dat ''appAppleId'', map_of dat ''environment''))
   \<and> (\<not> populated d ''data'' \<and> property d ''summary'' = Inr (Some (JObj summ)) \<longrightarrow>
      notification_identity d =
        Inr (map_of summ ''bundleId'', map_of summ ''appAppleId'',
             map_of summ ''environment''))
   \<and> (\<not> populated d ''data'' \<and> \<not> populated d ''summary''
      \<and> property d ''externalPurchaseToken'' = Inr (Some (JObj tok))
      \<and> (map_of tok ''externalPurchaseId'' = None
           \<or> map_of tok ''externalPurchaseId'' = Some (JStr pid)) \<longrightarrow>
    notification_identity d =
      Inr (map_of tok ''bundleId'', map_of tok ''appAppleId'',
           Some (JStr (env_value
             (if map_of tok ''externalPurchaseId'' = Some (JStr pid)
                 \<and> startsWith pid ''SANDBOX''
              then SANDBOX else PRODUCTION)))))"
proof (intro conjI impI; (elim conjE)?)
  assume jwt: "verifyJWT P this rt signedPayload
        (ResponseBodyV2DecodedPayloadValidator P) extractSignedDate = (rt', Inr d)"
    and ident: "notification_identity d = Inr (bid, aid, env)"
  from ident show "verifyAndDecodeNotification P this rt signedPayload =
      (rt', case verifyNotification this bid aid env of
              Inl e \<Rightarrow> Inl e
            | Inr u \<Rightarrow> Inr d)"
    by (simp add: verifyAndDecodeNotification_def jwt and_then_simps notification_checks_def)
next
  show "verifyNotification this bid aid env =
       (if bid \<noteq> Some (JStr (bundleId this))
        then Inl (VerificationException INVALID_APP_IDENTIFIER None)
        else if environment this = PRODUCTION \<and> aid \<noteq> map_option JNum (appAppleId this)
        then Inl (VerificationException INVALID_APP_IDENTIFIER None)
        else if env \<noteq> Some (JStr (env_value (environment this)))
        then Inl (VerificationException INVALID_ENVIRONMENT None)
        else Inr ())"
    by (simp add: verifyNotification_def strict_ne_string_def strict_ne_number_iff)
next
  assume "property d ''data'' = Inr (Some (JObj dat))"
  then show "notification_identity d =
        Inr (map_of dat ''bundleId'', map_of dat ''appAppleId'', map_of dat ''environment'')"
    by (simp add: notification_identity_def if_truthy_object identity_fields_def)
next
  assume none: "\<not> populated d ''data''"
    and summary: "property d ''summary'' = Inr (Some (JObj summ))"
  from summary have d: "d \<noteq> JNull" by auto
  from d none obtain dataV where
    dataV: "property d ''data'' = Inr dataV" "\<not> truthy dataV"
    by (rule not_populated)
  show "notification_identity d =
        Inr (map_of summ ''bundleId'', map_of summ ''appAppleId'',
             map_of summ ''environment'')"
    by (simp add: notification_identity_def dataV summary if_truthy_not if_truthy_object
          identity_fields_def)
next
  assume none: "\<not> populated d ''data''" "\<not> populated d ''summary''"
    and tok: "property d ''externalPurchaseToken'' = Inr (Some (JObj tok))"
    and pid: "map_of tok ''externalPurchaseId'' = None
           \<or> map_of tok ''externalPurchaseId'' = Some (JStr pid)"
  from tok have d: "d \<noteq> JNull" by auto
  from d none(1) obtain dataV where
    dataV: "property d ''data'' = Inr dataV" "\<not> truthy dataV"
    by (rule not_populated)
  from d none(2) obtain summaryV where
    summaryV: "property d ''summary'' = Inr summaryV" "\<not> truthy summaryV"
    by (rule not_populated)
  have "notification_identity d = token_identity_fields (JObj tok)"
    by (simp add: notification_identity_def dataV summaryV tok if_truthy_not if_truthy_object)
  also from pid have "token_identity_fields (JObj tok) =
      Inr (map_of tok ''bundleId'', map_of tok ''appAppleId'',
           Some (JStr (env_value
             (if map_of tok ''externalPurchaseId'' = Some (JStr pid)
                 \<and> startsWith pid ''SANDBOX''
              then SANDBOX else PRODUCTION))))"
    by (auto simp add: token_identity_fields_def if_truthy_def startsWith_def)
  finally show "notification_identity d =
      Inr (map_of tok ''bundleId'', map_of tok ''appAppleId'',
           Some (JStr (env_value
             (if map_of tok ''externalPurchaseId'' = Some (JStr pid)
                 \<and> startsWith pid ''SANDBOX''
              then SANDBOX else PRODUCTION))))" .
qed

theorem notification_identity_policy_witness:
  \<open>verifyAndDecodeNotification example_platform (example_verifier XCODE) (at_time 0)
     ''eyJhbGciOiJFUzI1NiIsIng1YyI6WyJRUT09IiwiUWc9PSIsIlF3PT0iXX0.eyJkYXRhIjp7ImFwcEFwcGxlSWQiOjcsImJ1bmRsZUlkIjoiY29tLmV4YW1wbGUiLCJlbnZpcm9ubWVudCI6Ilhjb2RlIn19.c2ln'' =
     (at_time 0, Inr (JObj [(''data'', JObj [(''appAppleId'', JNum 7), (''bundleId'', JStr ''com.example''), (''environment'', JStr ''Xcode'')])]))
   \<and> appAppleId (example_verifier XCODE) = None
   \<and> notification_identity (JObj [(''data'', JObj [(''appAppleId'', JNum 7), (''bundleId'', JStr ''com.example''), (''environment'', JStr ''Xcode'')])]) =
       Inr (Some (JStr ''com.example''), Some (JNum 7), Some (JStr ''Xcode''))
   \<and> notification_identity (JObj [(''summary'', JObj [(''bundleId'', JStr ''com.example''), (''environment'', JStr ''Sandbox'')])]) =
       Inr (Some (JStr ''com.example''), None, Some (JStr ''Sandbox''))
   \<and> notification_identity (JObj [(''externalPurchaseToken'', JObj [(''externalPurchaseId'', JStr ''SANDBOX_1''), (''bundleId'', JStr ''com.example''), (''appAppleId'', JNum 7)])]) =
       Inr (Some (JStr ''com.example''), Some (JNum 7), Some (JStr ''Sandbox''))
   \<and> verifyNotification example_production_verifier
       (Some (JStr ''com.example'')) (Some (JNum 7)) (Some (JStr ''Production'')) =
       Inl (VerificationException INVALID_APP_IDENTIFIER None)
   \<and> verifyNotification example_production_verifier
       (Some (JStr ''com.example'')) (Some (JNum 1)) (Some (JStr ''Production'')) =
       Inr ()
   \<and> verifyNotification (example_verifier SANDBOX)
       (Some (JStr ''com.example'')) (Some (JNum 7)) (Some (JStr ''Sandbox'')) =
       Inr ()
   \<and> verifyNotification (example_verifier SANDBOX)
       (Some (JStr ''com.example'')) (Some (JNum 7)) (Some (JStr ''Production'')) =
       Inl (VerificationException INVALID_ENVIRONMENT None)\<close>
proof -
  let ?dat = "[(''appAppleId'', JNum 7), (''bundleId'', JStr ''com.example''), (''environment'', JStr ''Xcode'')]"
  let ?summ = "[(''bundleId'', JStr ''com.example''), (''environment'', JStr ''Sandbox'')]"
  let ?tok = "[(''externalPurchaseId'', JStr ''SANDBOX_1''), (''bundleId'', JStr ''com.example''), (''appAppleId'', JNum 7)]"
  have data_branch: "property (JObj [(''data'', JObj ?dat)]) ''data'' = Inr (Some (JObj ?dat))"
    by simp
  have summary_branch: "\<not> populated (JObj [(''summary'', JObj ?summ)]) ''data''
      \<and> property (JObj [(''summary'', JObj ?summ)]) ''summary'' = Inr (Some (JObj ?summ))"
    by (simp add: populated_def)
  have token_branch: "\<not> populated (JObj [(''externalPurchaseToken'', JObj ?tok)]) ''data''
      \<and> \<not> populated (JObj [(''externalPurchaseToken'', JObj ?tok)]) ''summary''
      \<and> property (JObj [(''externalPurchaseToken'', JObj ?tok)]) ''externalPurchaseToken'' =
          Inr (Some (JObj ?tok))
      \<and> (map_of ?tok ''externalPurchaseId'' = None
           \<or> map_of ?tok ''externalPurchaseId'' = Some (JStr ''SANDBOX_1''))"
    by (simp add: populated_def)
  note from_data = notification_identity_policy
    [THEN conjunct2, THEN conjunct2, THEN conjunct1, rule_format, OF data_branch]
  note from_summary = notification_identity_policy
    [THEN conjunct2, THEN conjunct2, THEN conjunct2, THEN conjunct1, rule_format,
     OF summary_branch]
  note from_token = notification_identity_policy
    [THEN conjunct2, THEN conjunct2, THEN conjunct2, THEN conjunct2, rule_format,
     OF token_branch]
  have ident: "notification_identity (JObj [(''data'', JObj ?dat)]) =
      Inr (Some (JStr ''com.example''), Some (JNum 7), Some (JStr ''Xcode''))"
    using from_data by simp
  have returned: "verifyJWT example_platform (example_verifier XCODE) (at_time 0)
      ''eyJhbGciOiJFUzI1NiIsIng1YyI6WyJRUT09IiwiUWc9PSIsIlF3PT0iXX0.eyJkYXRhIjp7ImFwcEFwcGxlSWQiOjcsImJ1bmRsZUlkIjoiY29tLmV4YW1wbGUiLCJlbnZpcm9ubWVudCI6Ilhjb2RlIn19.c2ln''
      (ResponseBodyV2DecodedPayloadValidator example_platform) extractSignedDate =
      (at_time 0, Inr (JObj [(''data'', JObj ?dat)]))"
    by (simp add: verifyJWT_def verify_body_def rethrow_def
          ResponseBodyV2DecodedPayloadValidator_def DataValidator_def example_defs)
  note check = notification_identity_policy [THEN conjunct2, THEN conjunct1]
  show ?thesis
    using notification_identity_policy
        [THEN conjunct1, rule_format, OF conjI [OF returned ident]]
      ident from_summary from_token
      check [of "example_verifier XCODE" "Some (JStr ''com.example'')" "Some (JNum 7)"
               "Some (JStr ''Xcode'')"]
      check [of example_production_verifier "Some (JStr ''com.example'')" "Some (JNum 7)"
               "Some (JStr ''Production'')"]
      check [of example_production_verifier "Some (JStr ''com.example'')" "Some (JNum 1)"
               "Some (JStr ''Production'')"]
      check [of "example_verifier SANDBOX" "Some (JStr ''com.example'')" "Some (JNum 7)"
               "Some (JStr ''Sandbox'')"]
      check [of "example_verifier SANDBOX" "Some (JStr ''com.example'')" "Some (JNum 7)"
               "Some (JStr ''Production'')"]
    by (simp add: startsWith_def example_production_verifier_def example_defs)
qed

text \<open>
  C10. When verifyJWT has returned a notification payload in which none of data, summary
  and externalPurchaseToken is populated, verifyAndDecodeNotification fails with a
  VerificationException whose status is INVALID_APP_IDENTIFIER, whatever the verifier's
  bundleId: the extracted bundleId stays undefined and differs from every string.
  (verifyJWT returns a payload in the XCODE and LOCAL_TESTING environments.)
\<close>

theorem notification_without_sub_object_is_INVALID_APP_IDENTIFIER:
  assumes jwt: "verifyJWT P this rt signedPayload
                  (ResponseBodyV2DecodedPayloadValidator P) extractSignedDate = (rt', Inr d)"
    and none: "\<not> populated d ''data''" "\<not> populated d ''summary''"
      "\<not> populated d ''externalPurchaseToken''"
  shows "verifyAndDecodeNotification P this rt signedPayload =
           (rt', Inl (VerificationException INVALID_APP_IDENTIFIER None))"
proof -
  from verifyJWT_returns [OF jwt]
  have "ResponseBodyV2DecodedPayloadValidator P d = Some True" by simp
  then have d: "d \<noteq> JNull"
    using ResponseBodyV2DecodedPayloadValidator_null [of P] by auto
  from d none(1) obtain dataV where
    dataV: "property d ''data'' = Inr dataV" "\<not> truthy dataV"
    by (rule not_populated)
  from d none(2) obtain summaryV where
    summaryV: "property d ''summary'' = Inr summaryV" "\<not> truthy summaryV"
    by (rule not_populated)
  from d none(3) obtain tokenV where
    tokenV: "property d ''externalPurchaseToken'' = Inr tokenV" "\<not> truthy tokenV"
    by (rule not_populated)
  have "notification_identity d = Inr (None, None, None)"
    by (simp add: notification_identity_def dataV summaryV tokenV if_truthy_not)
  then have "notification_checks this d =
               Inl (VerificationException INVALID_APP_IDENTIFIER None)"
    by (simp add: notification_checks_def verifyNotification_def strict_ne_string_def)
  with jwt show ?thesis
    by (simp add: verifyAndDecodeNotification_def and_then_simps)
qed

theorem notification_without_sub_object_is_INVALID_APP_IDENTIFIER_witness:
  \<open>verifyAndDecodeNotification example_platform (example_verifier XCODE) (at_time 0)
     ''eyJhbGciOiJFUzI1NiIsIng1YyI6WyJRUT09IiwiUWc9PSIsIlF3PT0iXX0.e30.c2ln'' =
   (at_time 0, Inl (VerificationException INVALID_APP_IDENTIFIER None))\<close>
proof -
  have jwt: "verifyJWT example_platform (example_verifier XCODE) (at_time 0)
      ''eyJhbGciOiJFUzI1NiIsIng1YyI6WyJRUT09IiwiUWc9PSIsIlF3PT0iXX0.e30.c2ln''
      (ResponseBodyV2DecodedPayloadValidator example_platform) extractSignedDate =
      (at_time 0, Inr (JObj []))"
    by (simp add: verifyJWT_def verify_body_def rethrow_def
          ResponseBodyV2DecodedPayloadValidator_def example_defs)
  have none: "\<not> populated (JObj []) ''data''" "\<not> populated (JObj []) ''summary''"
    "\<not> populated (JObj []) ''externalPurchaseToken''"
    by (simp_all add: populated_def)
  show ?thesis
    using notification_without_sub_object_is_INVALID_APP_IDENTIFIER [OF jwt none]
    by simp
qed

section \<open>Idempotence\<close>

text \<open>
  C9. A typed verify operation that succeeds on a token succeeds again on the same
  token with the same verifier, and returns an equal payload: the verifier object is
  never modified by a call, and the outcome does not depend on the clock or on the
  number of generateKey calls so far, so it is the same in every runtime state
  \<open>rt'\<close>, in particular in the state the first call leaves behind at any later clock
  reading. (An operation succeeds in the XCODE and LOCAL_TESTING environments.)
\<close>

theorem verification_is_idempotent:
  "(snd (verifyAndDecodeTransaction P this rt jwt) = Inr d \<longrightarrow>
      snd (verifyAndDecodeTransaction P this rt' jwt) = Inr d)
   \<and> (snd (verifyAndDecodeRenewalInfo P this rt jwt) = Inr d \<longrightarrow>
      snd (verifyAndDecodeRenewalInfo P this rt' jwt) = Inr d)
   \<and> (snd (verifyAndDecodeNotification P this rt jwt) = Inr d \<longrightarrow>
      snd (verifyAndDecodeNotification P this rt' jwt) = Inr d)
   \<and> (snd (verifyAndDecodeAppTransaction P this rt jwt) = Inr d \<longrightarrow>
      snd (verifyAndDecodeAppTransaction P this rt' jwt) = Inr d)"
proof -
  have "snd (verifyAndDecodeTransaction P this rt jwt) =
        snd (verifyAndDecodeTransaction P this rt' jwt)"
    using verifyJWT_outcome [OF extractSignedDate_clock_independent, of P this rt jwt _ rt']
    by (simp add: verifyAndDecodeTransaction_def snd_and_then)
  moreover have "snd (verifyAndDecodeRenewalInfo P this rt jwt) =
        snd (verifyAndDecodeRenewalInfo P this rt' jwt)"
    using verifyJWT_outcome [OF extractSignedDate_clock_independent, of P this rt jwt _ rt']
    by (simp add: verifyAndDecodeRenewalInfo_def snd_and_then)
  moreover have "snd (verifyAndDecodeNotification P this rt jwt) =
        snd (verifyAndDecodeNotification P this rt' jwt)"
    using verifyJWT_outcome [OF extractSignedDate_clock_independent, of P this rt jwt _ rt']
    by (simp add: verifyAndDecodeNotification_def snd_and_then)
  moreover have "snd (verifyAndDecodeAppTransaction P this rt jwt) =
        snd (verifyAndDecodeAppTransaction P this rt' jwt)"
    using verifyJWT_outcome [OF extractReceiptCreationDate_clock_independent,
            of P this rt jwt _ rt']
    by (simp add: verifyAndDecodeAppTransaction_def snd_and_then)
  ultimately show ?thesis by simp
qed

theorem verification_is_idempotent_witness:
  \<open>verifyAndDecodeTransaction example_platform (example_verifier XCODE)
      \<lparr>now = 0, generateKeyCalls = 0\<rparr>
      ''eyJhbGciOiJFUzI1NiIsIng1YyI6WyJRUT09IiwiUWc9PSIsIlF3PT0iXX0.eyJidW5kbGVJZCI6ImNvbS5leGFtcGxlIiwiZW52aXJvbm1lbnQiOiJYY29kZSJ9.c2ln'' =
     (\<lparr>now = 0, generateKeyCalls = 0\<rparr>,
      Inr (JObj [(''bundleId'', JStr ''com.example''), (''environment'', JStr ''Xcode'')]))
   \<and> snd (verifyAndDecodeTransaction example_platform (example_verifier XCODE)
      \<lparr>now = 5000, generateKeyCalls = 0\<rparr>
      ''eyJhbGciOiJFUzI1NiIsIng1YyI6WyJRUT09IiwiUWc9PSIsIlF3PT0iXX0.eyJidW5kbGVJZCI6ImNvbS5leGFtcGxlIiwiZW52aXJvbm1lbnQiOiJYY29kZSJ9.c2ln'') =
      Inr (JObj [(''bundleId'', JStr ''com.example''), (''environment'', JStr ''Xcode'')])\<close>
proof -
  have first: "verifyAndDecodeTransaction example_platform (example_verifier XCODE)
      \<lparr>now = 0, generateKeyCalls = 0\<rparr>
      ''eyJhbGciOiJFUzI1NiIsIng1YyI6WyJRUT09IiwiUWc9PSIsIlF3PT0iXX0.eyJidW5kbGVJZCI6ImNvbS5leGFtcGxlIiwiZW52aXJvbm1lbnQiOiJYY29kZSJ9.c2ln'' =
     (\<lparr>now = 0, generateKeyCalls = 0\<rparr>,
      Inr (JObj [(''bundleId'', JStr ''com.example''), (''environment'', JStr ''Xcode'')]))"
    by (simp add: verifyAndDecodeTransaction_def and_then_def transaction_checks_def
        strict_ne_string_def verifyJWT_def verify_body_def rethrow_def example_defs)
  then have succeeded: "snd (verifyAndDecodeTransaction example_platform
      (example_verifier XCODE) \<lparr>now = 0, generateKeyCalls = 0\<rparr>
      ''eyJhbGciOiJFUzI1NiIsIng1YyI6WyJRUT09IiwiUWc9PSIsIlF3PT0iXX0.eyJidW5kbGVJZCI6ImNvbS5leGFtcGxlIiwiZW52aXJvbm1lbnQiOiJYY29kZSJ9.c2ln'') =
      Inr (JObj [(''bundleId'', JStr ''com.example''), (''environment'', JStr ''Xcode'')])"
    by simp
  show ?thesis
    using first
      verification_is_idempotent
        [where rt' = "\<lparr>now = 5000, generateKeyCalls = 0\<rparr>",
         THEN conjunct1, rule_format, OF succeeded]
    by simp
qed

end
